theory Spec2Isabelle
  imports Main
begin

section \<open>JavaScript values\<close>

text \<open>
  A JavaScript string is modelled as a \<^typ>\<open>string\<close>, one \<^typ>\<open>char\<close> per UTF-16
  code unit, so that \<open>length\<close> is the \<open>.length\<close> of the source. Case mapping is the
  ASCII one: the strings the configuration compares against (browser names, reserved
  names) are ASCII. An integer-valued \<open>number\<close> is an \<^typ>\<open>int\<close>; \<open>NaN\<close> is
  a value of its own where the source can produce it (\<open>parseInt\<close>).
\<close>

definition dq :: char where
  "dq = CHR 0x22"

definition backslash :: char where
  "backslash = CHR 0x5C"

definition newline :: char where
  "newline = CHR 0x0A"

definition upperLetters :: string where
  "upperLetters = ''ABCDEFGHIJKLMNOPQRSTUVWXYZ''"

definition lowerLetters :: string where
  "lowerLetters = ''abcdefghijklmnopqrstuvwxyz''"

definition isUpper :: "char \<Rightarrow> bool" where
  "isUpper c = (c \<in> set upperLetters)"

definition isLower :: "char \<Rightarrow> bool" where
  "isLower c = (c \<in> set lowerLetters)"

definition isLetter :: "char \<Rightarrow> bool" where
  "isLetter c = (isUpper c \<or> isLower c)"

text \<open>
  \<open>toLowerCase\<close> and \<open>toUpperCase\<close> on the letters \<open>A\<close> to \<open>Z\<close> and \<open>a\<close> to \<open>z\<close>; every
  other character is left as it is, so the two agree with the source on ASCII strings
  only.
\<close>

definition toLowerCase :: "string \<Rightarrow> string" where
  "toLowerCase s =
     map (\<lambda>c. case map_of (zip upperLetters lowerLetters) c of None \<Rightarrow> c | Some l \<Rightarrow> l) s"

definition toUpperCase :: "string \<Rightarrow> string" where
  "toUpperCase s =
     map (\<lambda>c. case map_of (zip lowerLetters upperLetters) c of None \<Rightarrow> c | Some u \<Rightarrow> u) s"

text \<open>\<open>s.startsWith(p)\<close> and \<open>s.includes(sub)\<close>, both case-sensitive.\<close>

fun startsWith :: "string \<Rightarrow> string \<Rightarrow> bool" where
  "startsWith s [] = True"
| "startsWith [] (p # ps) = False"
| "startsWith (c # cs) (p # ps) = (c = p \<and> startsWith cs ps)"

fun str_includes :: "string \<Rightarrow> string \<Rightarrow> bool" where
  "str_includes [] sub = (sub = [])"
| "str_includes (c # cs) sub = (startsWith (c # cs) sub \<or> str_includes cs sub)"

text \<open>\<open>xs.join(sep)\<close>.\<close>

fun join :: "string \<Rightarrow> string list \<Rightarrow> string" where
  "join sep [] = []"
| "join sep [x] = x"
| "join sep (x # y # ys) = x @ sep @ join sep (y # ys)"

text \<open>\<open>s.split(sep)\<close> for a one-character separator: the empty string splits into \<open>[""]\<close>.\<close>

fun split :: "char \<Rightarrow> string \<Rightarrow> string list" where
  "split sep [] = [[]]"
| "split sep (c # cs) =
     (if c = sep then [] # split sep cs
      else (case split sep cs of [] \<Rightarrow> [[c]] | w # ws \<Rightarrow> (c # w) # ws))"

text \<open>
  \<open>xs.slice(0, end)\<close> on arrays and strings: a negative \<open>end\<close> counts from the back,
  and both bounds are clamped to the length.
\<close>

definition slice0 :: "'a list \<Rightarrow> int \<Rightarrow> 'a list" where
  "slice0 xs e = (if e < 0 then take (nat (int (length xs) + e)) xs else take (nat e) xs)"

text \<open>
  Decimal rendering of an integer, as template literals and \<open>JSON.stringify\<close> do for an
  integral number of absolute value below \<open>10\<^sup>2\<^sup>1\<close>; from there on the source writes the
  exponent form, which is not modelled, as numbers with a fraction are not.
\<close>

definition digitChar :: "nat \<Rightarrow> char" where
  "digitChar d = ''0123456789'' ! d"

fun digits10 :: "nat \<Rightarrow> string" where
  "digits10 n = (if n < 10 then [digitChar n] else digits10 (n div 10) @ [digitChar (n mod 10)])"

declare digits10.simps [simp del]

definition Number_toString :: "int \<Rightarrow> string" where
  "Number_toString n = (if n < 0 then CHR ''-'' # digits10 (nat (- n)) else digits10 (nat n))"

text \<open>
  \<open>parseInt(s)\<close> without a radix: leading white space is skipped, a sign is read, a
  \<open>0x\<close> prefix selects radix 16, and the longest prefix of digits is converted; no digit
  at all gives \<open>NaN\<close>. The value is the exact integer: the rounding of a double beyond
  \<open>2^53\<close> is left out.
\<close>

datatype number = NaN | Num int

definition isWhiteSpace :: "char \<Rightarrow> bool" where
  "isWhiteSpace c = ((of_char c :: nat) \<in> {9, 10, 11, 12, 13, 32, 160})"

definition digitValue :: "char \<Rightarrow> nat option" where
  "digitValue c =
     (let k = (of_char c :: nat) in
      if 48 \<le> k \<and> k \<le> 57 then Some (k - 48)
      else if 97 \<le> k \<and> k \<le> 102 then Some (k - 87)
      else if 65 \<le> k \<and> k \<le> 70 then Some (k - 55)
      else None)"

definition isDigitIn :: "nat \<Rightarrow> char \<Rightarrow> bool" where
  "isDigitIn radix c = (case digitValue c of None \<Rightarrow> False | Some d \<Rightarrow> d < radix)"

definition digitsValue :: "nat \<Rightarrow> string \<Rightarrow> nat" where
  "digitsValue radix ds = foldl (\<lambda>acc c. acc * radix + the (digitValue c)) 0 ds"

definition parseInt :: "string \<Rightarrow> number" where
  "parseInt s =
     (let s1 = dropWhile isWhiteSpace s;
          neg = startsWith s1 ''-'';
          s2 = (if startsWith s1 ''-'' \<or> startsWith s1 ''+'' then tl s1 else s1);
          hex = (startsWith s2 ''0x'' \<or> startsWith s2 ''0X'');
          radix = (if hex then 16 else 10);
          s3 = (if hex then drop 2 s2 else s2);
          ds = takeWhile (isDigitIn radix) s3
      in if ds = [] then NaN
         else Num ((if neg then - 1 else 1) * int (digitsValue radix ds)))"

text \<open>
  A value that was thrown: an \<open>Error\<close> object with its message, or anything else
  (\<open>error instanceof Error\<close> is false).
\<close>

datatype thrown = Error string | NonError

section \<open>Configuration (config.ts)\<close>

text \<open>
  A regular expression is modelled by what \<open>String.prototype.replace\<close> needs of it:
  \<open>exec_at s i\<close> is the length of its match in \<open>s\<close> starting exactly at index \<open>i\<close>, if
  there is one, and \<open>global\<close> is its \<open>g\<close> flag. Capture groups are not modelled.
\<close>

record regexp =
  exec_at :: "string \<Rightarrow> nat \<Rightarrow> nat option"
  global :: bool

record sanitize_config =
  replaceChar :: string
  truncateSuffix :: string
  illegalChars :: regexp
  reservedNames :: "string list"

record file_config =
  maxFilenameLength :: int
  downloadsDir :: string
  tempDirPrefix :: string
  sanitize :: sanitize_config

record tools_config =
  required :: "string list"

record download_config =
  defaultResolution :: string
  defaultAudioFormat :: string
  defaultSubtitleLanguage :: string

record limits_config =
  characterLimit :: int
  maxTranscriptLength :: int

text \<open>The two optional cookie fields: \<open>None\<close> is \<open>undefined\<close>.\<close>

record cookies_config =
  cookie_file :: "string option"
  fromBrowser :: "string option"

record config =
  fileConfig :: file_config
  tools :: tools_config
  download :: download_config
  limits :: limits_config
  cookies :: cookies_config

definition VALID_BROWSERS :: "string list" where
  "VALID_BROWSERS =
     [''brave'', ''chrome'', ''chromium'', ''edge'',
      ''firefox'', ''opera'', ''safari'', ''vivaldi'', ''whale'']"

text \<open>
  JavaScript truthiness of an optional string, the test of \<open>if (x)\<close> and of \<open>x || y\<close>:
  \<open>undefined\<close> and the empty string are falsy.
\<close>

definition truthy :: "string option \<Rightarrow> bool" where
  "truthy x = (case x of None \<Rightarrow> False | Some s \<Rightarrow> s \<noteq> [])"

text \<open>
  \<open>getCookieArgs\<close>. The guard \<open>!config.cookies\<close> of the source cannot fire on a value
  of type \<open>Config\<close>, whose \<open>cookies\<close> field is required, and has no branch here.
\<close>

definition getCookieArgs :: "config \<Rightarrow> string list" where
  "getCookieArgs c =
     (if truthy (cookie_file (cookies c)) then [''--cookies'', the (cookie_file (cookies c))]
      else if truthy (fromBrowser (cookies c))
        then [''--cookies-from-browser'', the (fromBrowser (cookies c))]
      else [])"

subsection \<open>Environment overrides: \<open>loadEnvConfig\<close>\<close>

text \<open>
  \<open>DeepPartial<Config>\<close>: every property may be missing (\<open>None\<close>). The record fields
  carry the prefix \<open>p_\<close> of the partial type.
\<close>

record sanitize_partial =
  p_replaceChar :: "string option"
  p_truncateSuffix :: "string option"
  p_illegalChars :: "regexp option"
  p_reservedNames :: "string list option"

record file_partial =
  p_maxFilenameLength :: "number option"
  p_downloadsDir :: "string option"
  p_tempDirPrefix :: "string option"
  p_sanitize :: "sanitize_partial option"

record tools_partial =
  p_required :: "string list option"

record download_partial =
  p_defaultResolution :: "string option"
  p_defaultAudioFormat :: "string option"
  p_defaultSubtitleLanguage :: "string option"

record limits_partial =
  p_characterLimit :: "number option"
  p_maxTranscriptLength :: "number option"

record cookies_partial =
  p_cookie_file :: "string option"
  p_fromBrowser :: "string option"

record config_partial =
  p_fileConfig :: "file_partial option"
  p_tools :: "tools_partial option"
  p_download :: "download_partial option"
  p_limits :: "limits_partial option"
  p_cookies :: "cookies_partial option"

text \<open>
  \<open>new RegExp(pattern)\<close>: the regular-expression compiler of the runtime is a parameter
  \<open>compile\<close>, which throws on a malformed pattern; the object it builds has no \<open>g\<close> flag.
\<close>

definition RegExp_new ::
  "(string \<Rightarrow> thrown + (string \<Rightarrow> nat \<Rightarrow> nat option)) \<Rightarrow> string \<Rightarrow> thrown + regexp" where
  "RegExp_new compile pattern =
     (case compile pattern of
        Inl e \<Rightarrow> Inl e
      | Inr m \<Rightarrow> Inr \<lparr>exec_at = m, global = False\<rparr>)"

text \<open>The value of \<open>process.env.X\<close> when it is truthy, \<open>None\<close> otherwise.\<close>

definition whenSet :: "(string \<rightharpoonup> string) \<Rightarrow> string \<Rightarrow> string option" where
  "whenSet env name = (if truthy (env name) then env name else None)"

text \<open>
  \<open>loadEnvConfig\<close>, \<open>process.env\<close> being the map \<open>env\<close>. The three objects it fills,
  \<open>fileConfig\<close>, \<open>downloadConfig\<close> and \<open>cookiesConfig\<close>, are \<open>envFileConfig\<close>,
  \<open>envDownloadConfig\<close> and \<open>envCookiesConfig\<close>. \<open>fileConfig\<close> always has its
  \<open>sanitize\<close> key, so \<open>envConfig.file\<close> is always set; \<open>download\<close> and \<open>cookies\<close> are
  set when one of their keys is. No variable is read for \<open>limits\<close> or \<open>tools\<close>.
\<close>

definition envFileConfig :: "regexp option \<Rightarrow> (string \<rightharpoonup> string) \<Rightarrow> file_partial" where
  "envFileConfig re env =
     \<lparr>p_maxFilenameLength = map_option parseInt (whenSet env ''YTDLP_MAX_FILENAME_LENGTH''),
      p_downloadsDir = whenSet env ''YTDLP_DOWNLOADS_DIR'',
      p_tempDirPrefix = whenSet env ''YTDLP_TEMP_DIR_PREFIX'',
      p_sanitize = Some
        \<lparr>p_replaceChar = env ''YTDLP_SANITIZE_REPLACE_CHAR'',
         p_truncateSuffix = env ''YTDLP_SANITIZE_TRUNCATE_SUFFIX'',
         p_illegalChars = re,
         p_reservedNames = map_option (split CHR '','') (env ''YTDLP_SANITIZE_RESERVED_NAMES'')\<rparr>\<rparr>"

definition envDownloadConfig :: "(string \<rightharpoonup> string) \<Rightarrow> download_partial" where
  "envDownloadConfig env =
     \<lparr>p_defaultResolution =
        (case whenSet env ''YTDLP_DEFAULT_RESOLUTION'' of
           None \<Rightarrow> None
         | Some r \<Rightarrow> if r \<in> set [''480p'', ''720p'', ''1080p'', ''best''] then Some r else None),
      p_defaultAudioFormat =
        (case whenSet env ''YTDLP_DEFAULT_AUDIO_FORMAT'' of
           None \<Rightarrow> None
         | Some a \<Rightarrow> if a \<in> set [''m4a'', ''mp3''] then Some a else None),
      p_defaultSubtitleLanguage = whenSet env ''YTDLP_DEFAULT_SUBTITLE_LANG''\<rparr>"

definition envCookiesConfig :: "(string \<rightharpoonup> string) \<Rightarrow> cookies_partial" where
  "envCookiesConfig env =
     \<lparr>p_cookie_file = whenSet env ''YTDLP_COOKIES_FILE'',
      p_fromBrowser = whenSet env ''YTDLP_COOKIES_FROM_BROWSER''\<rparr>"

definition envIllegalChars ::
  "(string \<Rightarrow> thrown + (string \<Rightarrow> nat \<Rightarrow> nat option)) \<Rightarrow> (string \<rightharpoonup> string) \<Rightarrow> thrown + regexp option" where
  "envIllegalChars compile env =
     (case whenSet env ''YTDLP_SANITIZE_ILLEGAL_CHARS'' of
        None \<Rightarrow> Inr None
      | Some pattern \<Rightarrow>
          (case RegExp_new compile pattern of Inl e \<Rightarrow> Inl e | Inr re \<Rightarrow> Inr (Some re)))"

definition loadEnvConfig ::
  "(string \<Rightarrow> thrown + (string \<Rightarrow> nat \<Rightarrow> nat option)) \<Rightarrow> (string \<rightharpoonup> string) \<Rightarrow> thrown + config_partial" where
  "loadEnvConfig compile env =
     (case envIllegalChars compile env of
        Inl e \<Rightarrow> Inl e
      | Inr re \<Rightarrow>
          Inr \<lparr>p_fileConfig = Some (envFileConfig re env),
               p_tools = None,
               p_download =
                 (if p_defaultResolution (envDownloadConfig env) = None
                     \<and> p_defaultAudioFormat (envDownloadConfig env) = None
                     \<and> p_defaultSubtitleLanguage (envDownloadConfig env) = None
                  then None else Some (envDownloadConfig env)),
               p_limits = None,
               p_cookies =
                 (if p_cookie_file (envCookiesConfig env) = None
                     \<and> p_fromBrowser (envCookiesConfig env) = None
                  then None else Some (envCookiesConfig env))\<rparr>)"

subsection \<open>Defaults and \<open>mergeConfig\<close>\<close>

definition isIllegalChar :: "char \<Rightarrow> bool" where
  "isIllegalChar c =
     ((of_char c :: nat) \<le> 31 \<or> c \<in> set (''<>:/|?*'' @ [dq, backslash]))"

text \<open>The default pattern: a class of single characters, with the \<open>g\<close> flag.\<close>

definition defaultIllegalChars :: regexp where
  "defaultIllegalChars =
     \<lparr>exec_at = (\<lambda>s i. if i < length s \<and> isIllegalChar (s ! i) then Some 1 else None),
      global = True\<rparr>"

text \<open>
  \<open>defaultConfig\<close>. Its \<open>downloadsDir\<close> is \<open>path.join(os.homedir(), "Downloads")\<close>, a
  value of the machine the program runs on: the parameter \<open>homeDownloads\<close>.
\<close>

definition defaultConfig :: "string \<Rightarrow> config" where
  "defaultConfig homeDownloads =
     \<lparr>fileConfig = \<lparr>
        maxFilenameLength = 50,
        downloadsDir = homeDownloads,
        tempDirPrefix = ''ytdlp-'',
        sanitize = \<lparr>
          replaceChar = ''_'',
          truncateSuffix = ''...'',
          illegalChars = defaultIllegalChars,
          reservedNames =
            [''CON'', ''PRN'', ''AUX'', ''NUL'', ''COM1'', ''COM2'', ''COM3'', ''COM4'',
             ''COM5'', ''COM6'', ''COM7'', ''COM8'', ''COM9'', ''LPT1'', ''LPT2'',
             ''LPT3'', ''LPT4'', ''LPT5'', ''LPT6'', ''LPT7'', ''LPT8'', ''LPT9'']\<rparr>\<rparr>,
      tools = \<lparr>required = [''yt-dlp'']\<rparr>,
      download = \<lparr>
        defaultResolution = ''720p'',
        defaultAudioFormat = ''m4a'',
        defaultSubtitleLanguage = ''en''\<rparr>,
      limits = \<lparr>characterLimit = 25000, maxTranscriptLength = 50000\<rparr>,
      cookies = \<lparr>cookie_file = None, fromBrowser = None\<rparr>\<rparr>"

text \<open>
  The operators of \<open>mergeConfig\<close>. \<open>x || d\<close> takes \<open>d\<close> when \<open>x\<close> is falsy: a string
  that is missing or empty, a number that is missing, \<open>NaN\<close> or \<open>0\<close>, an object that is
  missing. \<open>x ?? d\<close> takes \<open>d\<close> only when \<open>x\<close> is missing.
\<close>

definition or_string :: "string option \<Rightarrow> string \<Rightarrow> string" where
  "or_string x d = (if truthy x then the x else d)"

definition or_number :: "number option \<Rightarrow> int \<Rightarrow> int" where
  "or_number x d = (case x of None \<Rightarrow> d | Some NaN \<Rightarrow> d | Some (Num n) \<Rightarrow> if n = 0 then d else n)"

definition or_object :: "'a option \<Rightarrow> 'a \<Rightarrow> 'a" where
  "or_object x d = (case x of None \<Rightarrow> d | Some v \<Rightarrow> v)"

definition nullish :: "'a option \<Rightarrow> 'a option \<Rightarrow> 'a option" where
  "nullish x d = (case x of None \<Rightarrow> d | Some v \<Rightarrow> Some v)"

definition mergeConfig :: "config \<Rightarrow> config_partial \<Rightarrow> config" where
  "mergeConfig base override =
     (let ofile = p_fileConfig override;
          osan = Option.bind ofile p_sanitize;
          bfile = fileConfig base;
          bsan = sanitize bfile
      in \<lparr>fileConfig = \<lparr>
             maxFilenameLength =
               or_number (Option.bind ofile p_maxFilenameLength) (maxFilenameLength bfile),
             downloadsDir = or_string (Option.bind ofile p_downloadsDir) (downloadsDir bfile),
             tempDirPrefix = or_string (Option.bind ofile p_tempDirPrefix) (tempDirPrefix bfile),
             sanitize = \<lparr>
               replaceChar = or_string (Option.bind osan p_replaceChar) (replaceChar bsan),
               truncateSuffix = or_string (Option.bind osan p_truncateSuffix) (truncateSuffix bsan),
               illegalChars = or_object (Option.bind osan p_illegalChars) (illegalChars bsan),
               reservedNames = or_object (Option.bind osan p_reservedNames) (reservedNames bsan)\<rparr>\<rparr>,
           tools = \<lparr>
             required = or_object (Option.bind (p_tools override) p_required) (required (tools base))\<rparr>,
           download = \<lparr>
             defaultResolution =
               or_string (Option.bind (p_download override) p_defaultResolution)
                 (defaultResolution (download base)),
             defaultAudioFormat =
               or_string (Option.bind (p_download override) p_defaultAudioFormat)
                 (defaultAudioFormat (download base)),
             defaultSubtitleLanguage =
               or_string (Option.bind (p_download override) p_defaultSubtitleLanguage)
                 (defaultSubtitleLanguage (download base))\<rparr>,
           limits = \<lparr>
             characterLimit =
               or_number (Option.bind (p_limits override) p_characterLimit)
                 (characterLimit (limits base)),
             maxTranscriptLength =
               or_number (Option.bind (p_limits override) p_maxTranscriptLength)
                 (maxTranscriptLength (limits base))\<rparr>,
           cookies = \<lparr>
             cookie_file =
               nullish (Option.bind (p_cookies override) p_cookie_file) (cookie_file (cookies base)),
             fromBrowser =
               nullish (Option.bind (p_cookies override) p_fromBrowser) (fromBrowser (cookies base))\<rparr>\<rparr>)"

subsection \<open>Validation and \<open>loadConfig\<close>\<close>

text \<open>
  The test \<open>/^[a-z]{2,3}(-[A-Z][a-z]{3})?(-[A-Z]{2})?$/i\<close>: two or three letters, then an
  optional hyphen with four letters, then an optional hyphen with two letters, and nothing
  else. With the \<open>i\<close> flag every class is the ASCII letters of both cases.
\<close>

definition isSubtag :: "nat \<Rightarrow> string \<Rightarrow> bool" where
  "isSubtag n s = (length s = Suc n \<and> startsWith s ''-'' \<and> list_all isLetter (drop 1 s))"

definition isTagRest :: "string \<Rightarrow> bool" where
  "isTagRest r =
     (r = [] \<or> isSubtag 4 r \<or> isSubtag 2 r \<or> (isSubtag 4 (take 5 r) \<and> isSubtag 2 (drop 5 r)))"

definition isPrimaryTag :: "nat \<Rightarrow> string \<Rightarrow> bool" where
  "isPrimaryTag n s = (n \<le> length s \<and> list_all isLetter (take n s) \<and> isTagRest (drop n s))"

definition isLanguageTag :: "string \<Rightarrow> bool" where
  "isLanguageTag s = (isPrimaryTag 2 s \<or> isPrimaryTag 3 s)"

text \<open>
  \<open>validateCookiesConfig\<close> mutates \<open>config.cookies\<close> and writes to \<open>console.warn\<close>: the
  model returns the configuration after the call and the warnings in the order they were
  written. \<open>fs.existsSync\<close> is the parameter \<open>existsSync\<close>.
\<close>

definition validateCookiesConfig :: "(string \<Rightarrow> bool) \<Rightarrow> config \<Rightarrow> config \<times> string list" where
  "validateCookiesConfig existsSync c =
     (let missing =
            (if truthy (cookie_file (cookies c)) then \<not> existsSync (the (cookie_file (cookies c)))
             else False);
          warn1 =
            (if missing
             then [''[yt-dlp-mcp] Cookie file not found: '' @ the (cookie_file (cookies c))
                     @ '', continuing without cookies'']
             else []);
          c1 = (if missing then c\<lparr>cookies := (cookies c)\<lparr>cookie_file := None\<rparr>\<rparr> else c);
          browserName =
            (case fromBrowser (cookies c1) of
               None \<Rightarrow> []
             | Some b \<Rightarrow> toLowerCase (hd (split CHR '':'' b)));
          invalid =
            (if truthy (fromBrowser (cookies c1)) then browserName \<notin> set VALID_BROWSERS else False);
          warn2 =
            (if invalid
             then [''[yt-dlp-mcp] Invalid browser name: '' @ browserName @ ''. Valid browsers: ''
                     @ join '', '' VALID_BROWSERS]
             else []);
          c2 = (if invalid then c1\<lparr>cookies := (cookies c1)\<lparr>fromBrowser := None\<rparr>\<rparr> else c1)
      in (c2, warn1 @ warn2))"

definition validateConfig :: "(string \<Rightarrow> bool) \<Rightarrow> config \<Rightarrow> thrown + config \<times> string list" where
  "validateConfig existsSync c =
     (if maxFilenameLength (fileConfig c) < 5
        then Inl (Error ''maxFilenameLength must be at least 5'')
      else if downloadsDir (fileConfig c) = []
        then Inl (Error ''downloadsDir must be specified'')
      else if tempDirPrefix (fileConfig c) = []
        then Inl (Error ''tempDirPrefix must be specified'')
      else if defaultResolution (download c) \<notin> set [''480p'', ''720p'', ''1080p'', ''best'']
        then Inl (Error ''Invalid defaultResolution'')
      else if defaultAudioFormat (download c) \<notin> set [''m4a'', ''mp3'']
        then Inl (Error ''Invalid defaultAudioFormat'')
      else if \<not> isLanguageTag (defaultSubtitleLanguage (download c))
        then Inl (Error ''Invalid defaultSubtitleLanguage'')
      else Inr (validateCookiesConfig existsSync c))"

text \<open>
  \<open>loadConfig\<close>: the environment overrides are read, merged over the defaults, and the
  merged configuration is validated. The result is the thrown error, or the configuration
  with the warnings that were logged.
\<close>

definition loadConfig ::
  "(string \<Rightarrow> thrown + (string \<Rightarrow> nat \<Rightarrow> nat option)) \<Rightarrow> string \<Rightarrow> (string \<Rightarrow> bool)
     \<Rightarrow> (string \<rightharpoonup> string) \<Rightarrow> thrown + config \<times> string list" where
  "loadConfig compile homeDownloads existsSync env =
     (case loadEnvConfig compile env of
        Inl e \<Rightarrow> Inl e
      | Inr envConfig \<Rightarrow>
          validateConfig existsSync (mergeConfig (defaultConfig homeDownloads) envConfig))"

subsection \<open>\<open>sanitizeFilename\<close>\<close>

text \<open>
  \<open>path.extname\<close> and \<open>path.parse(p).name\<close> of Node's POSIX \<open>path\<close>: trailing slashes
  are dropped, the last component is the base, and the extension runs from the last dot of
  the base to its end, unless that dot is the first character of the base or the base is
  \<open>..\<close>.
\<close>

definition basePart :: "string \<Rightarrow> string" where
  "basePart p =
     rev (takeWhile (\<lambda>c. c \<noteq> CHR ''/'') (dropWhile (\<lambda>c. c = CHR ''/'') (rev p)))"

definition path_extname :: "string \<Rightarrow> string" where
  "path_extname p =
     (let b = basePart p;
          afterDot = takeWhile (\<lambda>c. c \<noteq> CHR ''.'') (rev b);
          startDot = length b - length afterDot - 1
      in if length afterDot = length b \<or> startDot = 0 \<or> b = ''..'' then []
         else drop startDot b)"

definition path_parse_name :: "string \<Rightarrow> string" where
  "path_parse_name p = (let b = basePart p in take (length b - length (path_extname p)) b)"

text \<open>
  \<open>GetSubstitution\<close> of ECMAScript for a pattern without capture groups: \<open>$$\<close> is a
  dollar sign, \<open>$&\<close> the match, \<open>$`\<close> the text before it, \<open>$'\<close> the text after it; any
  other character stands for itself.
\<close>

fun GetSubstitution :: "string \<Rightarrow> string \<Rightarrow> nat \<Rightarrow> string \<Rightarrow> string" where
  "GetSubstitution m s p [] = []"
| "GetSubstitution m s p [c] = [c]"
| "GetSubstitution m s p (c # d # r) =
     (if c = CHR ''$'' \<and> d = CHR ''$'' then CHR ''$'' # GetSubstitution m s p r
      else if c = CHR ''$'' \<and> d = CHR ''&'' then m @ GetSubstitution m s p r
      else if c = CHR ''$'' \<and> d = CHR 0x60 then take p s @ GetSubstitution m s p r
      else if c = CHR ''$'' \<and> d = CHR 0x27 then drop (p + length m) s @ GetSubstitution m s p r
      else c # GetSubstitution m s p (d # r))"

text \<open>
  \<open>s.replace(re, repl)\<close>: the leftmost match from index \<open>i\<close> on is replaced; a global
  pattern goes on after the match (one character further after an empty match), any other
  pattern stops at its first match.
\<close>

function replaceFrom :: "regexp \<Rightarrow> string \<Rightarrow> string \<Rightarrow> nat \<Rightarrow> string" where
  "replaceFrom re s repl i =
     (if length s < i then []
      else (case exec_at re s i of
              None \<Rightarrow> (if i < length s then s ! i # replaceFrom re s repl (Suc i) else [])
            | Some n \<Rightarrow>
                GetSubstitution (take n (drop i s)) s i repl @
                (if global re
                 then (if n = 0
                       then (if i < length s then s ! i # replaceFrom re s repl (Suc i) else [])
                       else replaceFrom re s repl (i + n))
                 else drop (i + n) s)))"
  by pat_completeness auto
termination
  by (relation "measure (\<lambda>(re, s, repl, i). Suc (length s) - i)") auto

declare replaceFrom.simps [simp del]

definition js_replace :: "string \<Rightarrow> regexp \<Rightarrow> string \<Rightarrow> string" where
  "js_replace s re repl = replaceFrom re s repl 0"

text \<open>
  \<open>sanitizeFilename\<close>. \<open>safeName\<close> is the value of \<open>safe\<close> after the first two steps
  (lines 276 to 282): the illegal characters are replaced, and an underscore is put in
  front when the upper-cased base name is reserved. The third step (lines 285 to 289)
  cuts a name that is longer than \<open>maxFilenameLength\<close>.
\<close>

definition safeName :: "string \<Rightarrow> file_config \<Rightarrow> string" where
  "safeName filename cfg =
     (let safe = js_replace filename (illegalChars (sanitize cfg)) (replaceChar (sanitize cfg));
          basename = toUpperCase (path_parse_name safe)
      in if basename \<in> set (reservedNames (sanitize cfg)) then ''_'' @ safe else safe)"

definition sanitizeFilename :: "string \<Rightarrow> file_config \<Rightarrow> string" where
  "sanitizeFilename filename cfg =
     (let safe = safeName filename cfg
      in if maxFilenameLength cfg < int (length safe)
         then (let ext = path_extname safe;
                   name = slice0 safe
                            (maxFilenameLength cfg - int (length ext)
                               - int (length (truncateSuffix (sanitize cfg))))
               in name @ truncateSuffix (sanitize cfg) @ ext)
         else safe)"

section \<open>Comments (modules/comments.ts)\<close>

text \<open>
  \<open>Comment\<close>: every field is optional, \<open>None\<close> is \<open>undefined\<close>. The fields \<open>id\<close> and
  \<open>text\<close> of the source are \<open>comment_id\<close> and \<open>comment_text\<close>. A comment of the
  extractor's output may carry further properties (\<open>[key: string]: unknown\<close>), kept as
  pairs of a key and the JSON text of its value. The fields are of the declared types: a
  field that the extractor's output holds as JSON \<open>null\<close>, which the source would copy and
  serialize as \<open>null\<close>, is not modelled.
\<close>

record comment =
  comment_id :: "string option"
  comment_text :: "string option"
  author :: "string option"
  author_id :: "string option"
  author_url :: "string option"
  author_is_uploader :: "bool option"
  author_is_verified :: "bool option"
  like_count :: "int option"
  is_pinned :: "bool option"
  is_favorited :: "bool option"
  parent :: "string option"
  timestamp :: "int option"
  time_text :: "string option"

record raw_comment = comment +
  extra :: "(string \<times> string) list"

text \<open>\<open>CommentsResponse\<close>; \<open>truncated\<close> and \<open>message\<close> are \<open>_truncated\<close> and \<open>_message\<close>.\<close>

record CommentsResponse =
  count :: nat
  has_more :: bool
  comments :: "comment list"
  truncated :: "bool option"
  message :: "string option"

datatype CommentSortOrder = Top | New

definition sortOrderString :: "CommentSortOrder \<Rightarrow> string" where
  "sortOrderString order = (case order of Top \<Rightarrow> ''top'' | New \<Rightarrow> ''new'')"

text \<open>The metadata document of the extractor, of which only \<open>comments\<close> is read.\<close>

record metadata =
  metadata_comments :: "raw_comment list option"

subsection \<open>\<open>JSON.stringify(response, null, 2)\<close>\<close>

definition hexChar :: "nat \<Rightarrow> char" where
  "hexChar d = ''0123456789abcdef'' ! d"

definition json_escape :: "char \<Rightarrow> string" where
  "json_escape c =
     (let k = (of_char c :: nat) in
      if c = dq then [backslash, dq]
      else if c = backslash then [backslash, backslash]
      else if k = 8 then [backslash, CHR ''b'']
      else if k = 9 then [backslash, CHR ''t'']
      else if k = 10 then [backslash, CHR ''n'']
      else if k = 12 then [backslash, CHR ''f'']
      else if k = 13 then [backslash, CHR ''r'']
      else if k < 32 then [backslash, CHR ''u'', CHR ''0'', CHR ''0'', hexChar (k div 16), hexChar (k mod 16)]
      else [c])"

definition json_quote :: "string \<Rightarrow> string" where
  "json_quote s = [dq] @ concat (map json_escape s) @ [dq]"

definition json_bool :: "bool \<Rightarrow> string" where
  "json_bool b = (if b then ''true'' else ''false'')"

definition indent :: "nat \<Rightarrow> string" where
  "indent lvl = replicate (2 * lvl) CHR '' ''"

text \<open>An object and an array at nesting depth \<open>lvl\<close>, their members already serialized.\<close>

definition json_object :: "nat \<Rightarrow> (string \<times> string) list \<Rightarrow> string" where
  "json_object lvl props =
     (if props = [] then ''{}''
      else ''{'' @ [newline]
        @ join ('','' @ [newline])
            (map (\<lambda>(k, v). indent (Suc lvl) @ json_quote k @ '': '' @ v) props)
        @ [newline] @ indent lvl @ ''}'')"

definition json_array :: "nat \<Rightarrow> string list \<Rightarrow> string" where
  "json_array lvl items =
     (if items = [] then ''[]''
      else ''['' @ [newline]
        @ join ('','' @ [newline]) (map (\<lambda>v. indent (Suc lvl) @ v) items)
        @ [newline] @ indent lvl @ '']'')"

text \<open>A property whose value is \<open>undefined\<close> is left out.\<close>

definition property :: "string \<Rightarrow> ('a \<Rightarrow> string) \<Rightarrow> 'a option \<Rightarrow> (string \<times> string) list" where
  "property k f v = (case v of None \<Rightarrow> [] | Some x \<Rightarrow> [(k, f x)])"

definition stringify_comment :: "nat \<Rightarrow> comment \<Rightarrow> string" where
  "stringify_comment lvl c =
     json_object lvl
       (property ''id'' json_quote (comment_id c)
        @ property ''text'' json_quote (comment_text c)
        @ property ''author'' json_quote (author c)
        @ property ''author_id'' json_quote (author_id c)
        @ property ''author_url'' json_quote (author_url c)
        @ property ''author_is_uploader'' json_bool (author_is_uploader c)
        @ property ''author_is_verified'' json_bool (author_is_verified c)
        @ property ''like_count'' Number_toString (like_count c)
        @ property ''is_pinned'' json_bool (is_pinned c)
        @ property ''is_favorited'' json_bool (is_favorited c)
        @ property ''parent'' json_quote (parent c)
        @ property ''timestamp'' Number_toString (timestamp c)
        @ property ''time_text'' json_quote (time_text c))"

definition JSON_stringify :: "CommentsResponse \<Rightarrow> string" where
  "JSON_stringify r =
     json_object 0
       ([(''count'', Number_toString (int (count r))),
         (''has_more'', json_bool (has_more r)),
         (''comments'', json_array 1 (map (stringify_comment 2) (comments r)))]
        @ property ''_truncated'' json_bool (truncated r)
        @ property ''_message'' json_quote (message r))"

subsection \<open>\<open>getVideoComments\<close>\<close>

text \<open>The argument vector handed to the extractor (lines 99 to 108).\<close>

definition commentArgs :: "string \<Rightarrow> int \<Rightarrow> CommentSortOrder \<Rightarrow> config option \<Rightarrow> string list" where
  "commentArgs url maxComments sortOrder config =
     [''--dump-json'',
      ''--no-warnings'',
      ''--no-check-certificate'',
      ''--write-comments'',
      ''--extractor-args'',
      ''youtube:comment_sort='' @ sortOrderString sortOrder @ '';max_comments=''
        @ Number_toString maxComments @ '',all,all'',
      ''--skip-download'']
     @ (case config of None \<Rightarrow> [] | Some c \<Rightarrow> getCookieArgs c)
     @ [url]"

text \<open>The projection of a source comment on the thirteen fields of the schema.\<close>

definition project :: "raw_comment \<Rightarrow> comment" where
  "project c =
     \<lparr>comment_id = comment_id c,
      comment_text = comment_text c,
      author = author c,
      author_id = author_id c,
      author_url = author_url c,
      author_is_uploader = author_is_uploader c,
      author_is_verified = author_is_verified c,
      like_count = like_count c,
      is_pinned = is_pinned c,
      is_favorited = is_favorited c,
      parent = parent c,
      timestamp = timestamp c,
      time_text = time_text c\<rparr>"

text \<open>
  The response built from the parsed metadata (lines 118 to 142): \<open>sourceComments\<close> is
  \<open>metadata.comments || []\<close>, which \<open>slice(0, maxComments)\<close> cuts.
\<close>

definition sourceComments :: "metadata \<Rightarrow> raw_comment list" where
  "sourceComments md = (case metadata_comments md of None \<Rightarrow> [] | Some cs \<Rightarrow> cs)"

definition buildResponse :: "metadata \<Rightarrow> int \<Rightarrow> CommentsResponse" where
  "buildResponse md maxComments =
     (let rawComments = sourceComments md;
          comments = slice0 rawComments maxComments
      in \<lparr>count = length comments,
          has_more = (maxComments < int (length rawComments)),
          comments = map project comments,
          truncated = None,
          message = None\<rparr>)"

text \<open>
  The size loop (lines 151 to 161). Its state is the pair of \<open>truncatedComments\<close> and
  \<open>result\<close>; \<open>loopCond\<close> is the test of the \<open>while\<close>, \<open>loopBody\<close> one pass through its
  body, and \<open>loopIterations\<close> counts the passes \<open>truncateLoop\<close> makes.
\<close>

definition truncatedResponse :: "comment list \<Rightarrow> CommentsResponse" where
  "truncatedResponse truncatedComments =
     \<lparr>count = length truncatedComments,
      has_more = True,
      comments = truncatedComments,
      truncated = Some True,
      message = Some (''Response truncated to '' @ Number_toString (int (length truncatedComments))
        @ '' comments due to size limits. Use smaller maxComments value.'')\<rparr>"

definition loopCond :: "int \<Rightarrow> comment list \<times> string \<Rightarrow> bool" where
  "loopCond limit st = (limit < int (length (snd st)) \<and> 1 < length (fst st))"

definition loopBody :: "comment list \<times> string \<Rightarrow> comment list \<times> string" where
  "loopBody st =
     (let truncatedComments = slice0 (fst st) (- 1)
      in (truncatedComments, JSON_stringify (truncatedResponse truncatedComments)))"

function truncateLoop :: "int \<Rightarrow> comment list \<times> string \<Rightarrow> comment list \<times> string" where
  "truncateLoop limit st =
     (if loopCond limit st then truncateLoop limit (loopBody st) else st)"
  by pat_completeness auto
termination
  by (relation "measure (\<lambda>(l, st). length (fst st))")
     (auto simp: loopCond_def loopBody_def slice0_def Let_def)

function loopIterations :: "int \<Rightarrow> comment list \<times> string \<Rightarrow> nat" where
  "loopIterations limit st =
     (if loopCond limit st then Suc (loopIterations limit (loopBody st)) else 0)"
  by pat_completeness auto
termination
  by (relation "measure (\<lambda>(l, st). length (fst st))")
     (auto simp: loopCond_def loopBody_def slice0_def Let_def)

declare truncateLoop.simps [simp del] loopIterations.simps [simp del]

text \<open>Serialization and the size ceiling (lines 144 to 164).\<close>

definition limitResult :: "config option \<Rightarrow> CommentsResponse \<Rightarrow> string" where
  "limitResult config response =
     (let result = JSON_stringify response
      in case config of
           None \<Rightarrow> result
         | Some c \<Rightarrow>
             if characterLimit (limits c) < int (length result)
             then snd (truncateLoop (characterLimit (limits c)) (comments response, result))
             else result)"

text \<open>The \<open>catch\<close> block (lines 166 to 184): the first test that matches decides.\<close>

definition classifyError :: "string \<Rightarrow> thrown \<Rightarrow> thrown" where
  "classifyError url error =
     (case error of
        NonError \<Rightarrow> Error (''Failed to extract video comments from '' @ url)
      | Error msg \<Rightarrow>
          if str_includes msg ''Video unavailable'' \<or> str_includes msg ''private''
            then Error (''Video is unavailable or private: '' @ url
                   @ ''. Check the URL and video privacy settings.'')
          else if str_includes msg ''Unsupported URL'' \<or> str_includes msg ''extractor''
            then Error (''Unsupported platform or video URL: '' @ url
                   @ ''. Comments extraction is primarily supported for YouTube.'')
          else if str_includes msg ''network'' \<or> str_includes msg ''Connection''
            then Error ''Network error while extracting comments. Check your internet connection and retry.''
          else if str_includes msg ''comments are disabled'' \<or> str_includes msg ''Comments are turned off''
            then Error (''Comments are disabled for this video: '' @ url)
          else if str_includes msg ''Sign in'' \<or> str_includes msg ''age''
            then Error ''This video requires authentication to view comments. Configure cookies in your settings.''
          else Error (''Failed to extract video comments: '' @ msg @ ''. Verify the URL is correct.''))"

text \<open>
  \<open>getVideoComments\<close>. The collaborators are parameters: \<open>validateUrl\<close> of
  \<open>modules/utils\<close>, \<open>spawnPromise\<close> (the extractor run, which returns its standard output
  or throws) and \<open>JSON_parse\<close> (which returns the metadata or throws). An invalid URL is
  thrown before the \<open>try\<close>; whatever is thrown inside it goes through the \<open>catch\<close>. The
  optional \<open>_config\<close> is a \<^typ>\<open>config option\<close>; the defaults of \<open>maxComments\<close> and
  \<open>sortOrder\<close> are \<open>20\<close> and \<open>Top\<close>.
\<close>

definition getVideoComments ::
  "(string \<Rightarrow> bool) \<Rightarrow> (string \<Rightarrow> string list \<Rightarrow> thrown + string) \<Rightarrow> (string \<Rightarrow> thrown + metadata)
     \<Rightarrow> string \<Rightarrow> int \<Rightarrow> CommentSortOrder \<Rightarrow> config option \<Rightarrow> thrown + string" where
  "getVideoComments validateUrl spawnPromise JSON_parse url maxComments sortOrder config =
     (if \<not> validateUrl url then Inl (Error ''Invalid or unsupported URL format'')
      else (case spawnPromise ''yt-dlp'' (commentArgs url maxComments sortOrder config) of
              Inl error \<Rightarrow> Inl (classifyError url error)
            | Inr output \<Rightarrow>
                (case JSON_parse output of
                   Inl error \<Rightarrow> Inl (classifyError url error)
                 | Inr md \<Rightarrow> Inr (limitResult config (buildResponse md maxComments)))))"

subsection \<open>\<open>getVideoCommentsSummary\<close>\<close>

text \<open>
  \<open>n.toLocaleString()\<close> depends on the locale of the runtime and is a parameter of the
  summary. For an integer it groups the digits in threes: \<open>toLocaleString_enUS\<close> is its
  value in the \<open>en-US\<close> locale, where the groups are separated by commas, and
  \<open>toLocaleString_deDE\<close> its value in the \<open>de-DE\<close> locale, where they are separated by
  dots.
\<close>

definition pad3 :: "nat \<Rightarrow> string" where
  "pad3 k = [digitChar (k div 100), digitChar (k div 10 mod 10), digitChar (k mod 10)]"

fun groupThousands :: "string \<Rightarrow> nat \<Rightarrow> string" where
  "groupThousands sep n =
     (if n < 1000 then digits10 n else groupThousands sep (n div 1000) @ sep @ pad3 (n mod 1000))"

declare groupThousands.simps [simp del]

definition toLocaleString_enUS :: "int \<Rightarrow> string" where
  "toLocaleString_enUS n =
     (if n < 0 then CHR ''-'' # groupThousands '','' (nat (- n)) else groupThousands '','' (nat n))"

definition toLocaleString_deDE :: "int \<Rightarrow> string" where
  "toLocaleString_deDE n =
     (if n < 0 then CHR ''-'' # groupThousands ''.'' (nat (- n)) else groupThousands ''.'' (nat n))"

text \<open>The author line of one comment (lines 231 to 250), built by successive appends.\<close>

definition authorLine :: "(int \<Rightarrow> string) \<Rightarrow> comment \<Rightarrow> string" where
  "authorLine toLocaleString c =
     (let line = ''Author: '' @ or_string (author c) ''Unknown'';
          line = (if author_is_uploader c = Some True then line @ '' [UPLOADER]'' else line);
          line = (if author_is_verified c = Some True then line @ '' [VERIFIED]'' else line);
          line = (if is_pinned c = Some True then line @ '' [PINNED]'' else line);
          line = (if truthy (time_text c) then line @ '' ('' @ the (time_text c) @ '')'' else line);
          line = (case like_count c of
                    None \<Rightarrow> line
                  | Some n \<Rightarrow> if 0 < n then line @ '' - '' @ toLocaleString n @ '' likes'' else line)
      in line)"

text \<open>The lines pushed for one comment (lines 229 to 268).\<close>

definition commentLines :: "(int \<Rightarrow> string) \<Rightarrow> comment \<Rightarrow> string list" where
  "commentLines toLocaleString c =
     [authorLine toLocaleString c]
     @ (if truthy (comment_text c)
        then [if 300 < length (the (comment_text c))
              then take 300 (the (comment_text c)) @ ''...''
              else the (comment_text c)]
        else [])
     @ (if truthy (parent c) \<and> parent c \<noteq> Some ''root''
        then [''(Reply to comment '' @ the (parent c) @ '')'']
        else [])
     @ [[]]"

text \<open>
  All the lines of the summary. The second line of the source is thirty box-drawing
  characters, code unit \<open>0x2500\<close>, which the 8-bit characters of the model cannot hold: the
  line is the parameter \<open>rule\<close>.
\<close>

definition summaryLines :: "string \<Rightarrow> (int \<Rightarrow> string) \<Rightarrow> CommentsResponse \<Rightarrow> string list" where
  "summaryLines rule toLocaleString data =
     [''Video Comments ('' @ Number_toString (int (count data)) @ '' shown)'', rule, []]
     @ concat (map (commentLines toLocaleString) (comments data))
     @ (if has_more data
        then [''---'', ''More comments available. Increase maxComments to see more.'']
        else [])"

text \<open>The \<open>catch\<close> block of the summary: an \<open>Error\<close> is thrown again as it is.\<close>

definition rethrow :: "string \<Rightarrow> thrown \<Rightarrow> thrown" where
  "rethrow url error =
     (case error of
        Error msg \<Rightarrow> Error msg
      | NonError \<Rightarrow> Error (''Failed to generate comments summary for '' @ url))"

definition getVideoCommentsSummary ::
  "(string \<Rightarrow> bool) \<Rightarrow> (string \<Rightarrow> string list \<Rightarrow> thrown + string) \<Rightarrow> (string \<Rightarrow> thrown + metadata)
     \<Rightarrow> (string \<Rightarrow> thrown + CommentsResponse) \<Rightarrow> string \<Rightarrow> (int \<Rightarrow> string)
     \<Rightarrow> string \<Rightarrow> int \<Rightarrow> config option \<Rightarrow> thrown + string" where
  "getVideoCommentsSummary validateUrl spawnPromise JSON_parse JSON_parse_response rule toLocaleString
       url maxComments config =
     (case getVideoComments validateUrl spawnPromise JSON_parse url maxComments Top config of
        Inl error \<Rightarrow> Inl (rethrow url error)
      | Inr commentsJson \<Rightarrow>
          (case JSON_parse_response commentsJson of
             Inl error \<Rightarrow> Inl (rethrow url error)
           | Inr data \<Rightarrow> Inr (join [newline] (summaryLines rule toLocaleString data))))"

section \<open>Sample inputs\<close>

text \<open>
  Concrete collaborators and inputs, on which the theorems below are instantiated: a URL
  validator that accepts, an extractor run that returns or throws a given value, a parser
  that returns a given document, and the default configuration with a given character
  limit or given cookie fields.
\<close>

definition sampleUrl :: string where
  "sampleUrl = ''https://www.youtube.com/watch?v=jNQXAC9IVRw''"

definition sampleHome :: string where
  "sampleHome = ''/home/user/Downloads''"

definition acceptUrl :: "string \<Rightarrow> bool" where
  "acceptUrl url = True"

definition spawnReturns :: "string \<Rightarrow> string \<Rightarrow> string list \<Rightarrow> thrown + string" where
  "spawnReturns out cmd args = Inr out"

definition spawnThrows :: "thrown \<Rightarrow> string \<Rightarrow> string list \<Rightarrow> thrown + string" where
  "spawnThrows e cmd args = Inl e"

definition parseThrows :: "thrown \<Rightarrow> string \<Rightarrow> thrown + metadata" where
  "parseThrows e out = Inl e"

definition parseReturns :: "metadata \<Rightarrow> string \<Rightarrow> thrown + metadata" where
  "parseReturns md out = Inr md"

definition sampleComment :: "string \<Rightarrow> raw_comment" where
  "sampleComment name =
     \<lparr>comment_id = Some ''c1'', comment_text = Some ''First!'', author = Some name,
      author_id = None, author_url = None, author_is_uploader = Some False,
      author_is_verified = None, like_count = Some 3, is_pinned = None, is_favorited = None,
      parent = Some ''root'', timestamp = Some 1700000000, time_text = Some ''1 day ago'',
      extra = [(''_time_text'', ''1 day ago'')]\<rparr>"

definition rejectPattern :: "string \<Rightarrow> thrown + (string \<Rightarrow> nat \<Rightarrow> nat option)" where
  "rejectPattern pattern = Inl (Error ''Invalid regular expression'')"

definition noFile :: "string \<Rightarrow> bool" where
  "noFile path = False"

definition limitsEnv :: "string \<rightharpoonup> string" where
  "limitsEnv =
     map_of [(''YTDLP_CHARACTER_LIMIT'', ''10000''), (''YTDLP_MAX_TRANSCRIPT_LENGTH'', ''100000'')]"

definition badCookiesEnv :: "string \<rightharpoonup> string" where
  "badCookiesEnv =
     map_of [(''YTDLP_COOKIES_FILE'', ''/nonexistent/path/cookies.txt''),
             (''YTDLP_COOKIES_FROM_BROWSER'', ''invalidbrowser'')]"

definition shortNamesEnv :: "string \<rightharpoonup> string" where
  "shortNamesEnv = map_of [(''YTDLP_MAX_FILENAME_LENGTH'', ''3'')]"

definition droppedEnv :: "string \<rightharpoonup> string" where
  "droppedEnv =
     map_of [(''YTDLP_DOWNLOADS_DIR'', []),
             (''YTDLP_TEMP_DIR_PREFIX'', []),
             (''YTDLP_DEFAULT_RESOLUTION'', ''4k''),
             (''YTDLP_DEFAULT_AUDIO_FORMAT'', ''flac'')]"

definition configWithResolution :: "string \<Rightarrow> config" where
  "configWithResolution r =
     (defaultConfig sampleHome)\<lparr>download :=
        \<lparr>defaultResolution = r, defaultAudioFormat = ''m4a'', defaultSubtitleLanguage = ''en''\<rparr>\<rparr>"

definition longTitle :: string where
  "longTitle = ''Top 10 songs of 2023. Official playlist with all the best new music videos''"

definition emptyComment :: comment where
  "emptyComment =
     \<lparr>comment_id = None, comment_text = None, author = None, author_id = None,
      author_url = None, author_is_uploader = None, author_is_verified = None,
      like_count = None, is_pinned = None, is_favorited = None, parent = None,
      timestamp = None, time_text = None\<rparr>"

definition noComments :: metadata where
  "noComments = \<lparr>metadata_comments = None\<rparr>"

definition oneComment :: metadata where
  "oneComment = \<lparr>metadata_comments = Some [sampleComment ''alice'']\<rparr>"

definition twoComments :: metadata where
  "twoComments = \<lparr>metadata_comments = Some [sampleComment ''alice'', sampleComment ''bob'']\<rparr>"

definition configWithLimit :: "int \<Rightarrow> config" where
  "configWithLimit n =
     (defaultConfig sampleHome)\<lparr>limits := \<lparr>characterLimit = n, maxTranscriptLength = 50000\<rparr>\<rparr>"

definition configWithCookies :: "string option \<Rightarrow> string option \<Rightarrow> config" where
  "configWithCookies f b =
     (defaultConfig sampleHome)\<lparr>cookies := \<lparr>cookie_file = f, fromBrowser = b\<rparr>\<rparr>"

section \<open>Properties of the comments pipeline\<close>

subsection \<open>The size loop\<close>

text \<open>
  One pass of the loop drops the last comment and serializes the shortened list as a
  truncated response; the loop is the pass iterated \<open>loopIterations\<close> times, and it
  leaves a state in which its test fails.
\<close>

lemma slice0_minus_one: "slice0 xs (- 1) = butlast xs"
  by (simp add: slice0_def butlast_conv_take nat_diff_distrib')

lemma loopBody_fst: "fst (loopBody st) = butlast (fst st)"
  by (simp add: loopBody_def Let_def slice0_minus_one)

lemma loopBody_snd: "snd (loopBody st) = JSON_stringify (truncatedResponse (butlast (fst st)))"
  by (simp add: loopBody_def Let_def slice0_minus_one)

lemma truncateLoop_funpow: "truncateLoop limit st = (loopBody ^^ loopIterations limit st) st"
proof (induction limit st rule: truncateLoop.induct)
  case (1 limit st)
  show ?case
  proof (cases "loopCond limit st")
    case True
    then show ?thesis
      using "1.IH" by (simp add: truncateLoop.simps [of limit st] loopIterations.simps [of limit st] funpow_swap1)
  next
    case False
    then show ?thesis
      by (simp add: truncateLoop.simps [of limit st] loopIterations.simps [of limit st])
  qed
qed

lemma funpow_loopBody_fst: "fst ((loopBody ^^ k) st) = take (length (fst st) - k) (fst st)"
proof (induction k)
  case 0
  then show ?case by simp
next
  case (Suc k)
  then show ?case
    by (simp add: loopBody_fst butlast_conv_take)
qed

lemma loopIterations_less: "loopIterations limit st \<le> length (fst st) - 1"
proof (induction limit st rule: loopIterations.induct)
  case (1 limit st)
  show ?case
  proof (cases "loopCond limit st")
    case True
    then have "1 < length (fst st)" by (simp add: loopCond_def)
    with True "1.IH" show ?thesis
      by (simp add: loopIterations.simps [of limit st] loopBody_fst)
  next
    case False
    then show ?thesis by (simp add: loopIterations.simps [of limit st])
  qed
qed

lemma truncateLoop_exit: "\<not> loopCond limit (truncateLoop limit st)"
proof (induction limit st rule: truncateLoop.induct)
  case (1 limit st)
  then show ?case
    by (cases "loopCond limit st") (simp_all add: truncateLoop.simps [of limit st])
qed

lemma truncateLoop_nonempty: "fst st \<noteq> [] \<Longrightarrow> fst (truncateLoop limit st) \<noteq> []"
proof (induction limit st rule: truncateLoop.induct)
  case (1 limit st)
  show ?case
  proof (cases "loopCond limit st")
    case True
    then have "1 < length (fst st)" by (simp add: loopCond_def)
    then have "fst (loopBody st) \<noteq> []"
      by (cases "fst st" rule: rev_cases) (auto simp: loopBody_fst)
    with True "1.IH" show ?thesis
      by (simp add: truncateLoop.simps [of limit st])
  next
    case False
    with "1.prems" show ?thesis by (simp add: truncateLoop.simps [of limit st])
  qed
qed

lemma truncateLoop_truncated:
  "0 < loopIterations limit st \<Longrightarrow>
     snd (truncateLoop limit st) = JSON_stringify (truncatedResponse (fst (truncateLoop limit st)))"
proof (induction limit st rule: truncateLoop.induct)
  case (1 limit st)
  from "1.prems" have c: "loopCond limit st"
    by (cases "loopCond limit st") (simp_all add: loopIterations.simps [of limit st])
  show ?case
  proof (cases "loopCond limit (loopBody st)")
    case True
    then have "0 < loopIterations limit (loopBody st)"
      by (simp add: loopIterations.simps [of limit "loopBody st"])
    with c "1.IH" show ?thesis
      by (simp add: truncateLoop.simps [of limit st])
  next
    case False
    then have "truncateLoop limit (loopBody st) = loopBody st"
      by (simp add: truncateLoop.simps [of limit "loopBody st"])
    with c show ?thesis
      by (simp add: truncateLoop.simps [of limit st] loopBody_fst loopBody_snd)
  qed
qed

lemma getVideoComments_success:
  assumes "validateUrl url"
    and "spawnPromise ''yt-dlp'' (commentArgs url maxComments sortOrder config) = Inr out"
    and "JSON_parse out = Inr md"
  shows "getVideoComments validateUrl spawnPromise JSON_parse url maxComments sortOrder config
           = Inr (limitResult config (buildResponse md maxComments))"
  using assms by (simp add: getVideoComments_def)

lemma limitResult_over:
  "characterLimit (limits c) < int (length (JSON_stringify r)) \<Longrightarrow>
     limitResult (Some c) r = snd (truncateLoop (characterLimit (limits c)) (comments r, JSON_stringify r))"
  by (simp add: limitResult_def Let_def)

lemma length_slice0_le: "length (slice0 xs e) \<le> length xs"
  by (auto simp: slice0_def)

lemma buildResponse_comments_le:
  "length (comments (buildResponse md maxComments))
     \<le> length (sourceComments md)"
  by (simp add: buildResponse_def Let_def length_slice0_le)

text \<open>Evaluation of the serializer on the sample inputs.\<close>

lemmas json_defs = JSON_stringify_def json_object_def json_array_def json_quote_def json_escape_def
  json_bool_def property_def indent_def stringify_comment_def Number_toString_def digitChar_def
  hexChar_def dq_def backslash_def newline_def Let_def

lemma length_stringify_empty: "length (JSON_stringify
         \<lparr>count = 0, has_more = False, comments = [], truncated = None, message = None\<rparr>) = 55"
  by code_simp

lemma comments_twoComments: "comments (buildResponse twoComments 20)
              = [project (sampleComment ''alice''), project (sampleComment ''bob'')]"
    by (simp add: buildResponse_def sourceComments_def twoComments_def slice0_def)

lemma twoComments_over: "10 < int (length (JSON_stringify (buildResponse twoComments 20)))"
  by (simp add: buildResponse_def sourceComments_def twoComments_def slice0_def project_def sampleComment_def json_defs digits10.simps)

lemma truncated_alice_over: "10 < int (length (JSON_stringify (truncatedResponse [project (sampleComment ''alice'')])))"
  by (simp add: truncatedResponse_def project_def sampleComment_def json_defs digits10.simps)

text \<open>
  C2, as amended. Let the extractor run and the parse succeed, a configuration be given,
  and the first serialization be longer than \<open>characterLimit\<close>. Then the call returns
  the string the loop ends with; the loop makes \<open>k\<close> passes, at most as many as the source
  array has comments; each pass drops exactly the last comment retained, so that the
  comments left are the first \<open>n - k\<close> of the \<open>n\<close> retained at the start; at the end the
  string fits the limit or at most one comment is left, and the list is not empty unless
  it was empty from the start; and if at least one pass was made, the string returned is
  the serialization of a response with \<open>has_more = true\<close>, \<open>_truncated = true\<close> and a
  \<open>_message\<close>.
\<close>

theorem size_loop_bounded:
  assumes url: "validateUrl url"
    and run: "spawnPromise ''yt-dlp'' (commentArgs url maxComments sortOrder (Some c)) = Inr out"
    and parse: "JSON_parse out = Inr md"
    and over: "characterLimit (limits c) < int (length (JSON_stringify (buildResponse md maxComments)))"
  defines "limit \<equiv> characterLimit (limits c)"
    and "st0 \<equiv> (comments (buildResponse md maxComments), JSON_stringify (buildResponse md maxComments))"
  defines "k \<equiv> loopIterations limit st0"
    and "final \<equiv> truncateLoop limit st0"
  shows "getVideoComments validateUrl spawnPromise JSON_parse url maxComments sortOrder (Some c)
           = Inr (snd final)
    \<and> final = (loopBody ^^ k) st0
    \<and> k \<le> length (sourceComments md)
    \<and> (\<forall>j<k. fst ((loopBody ^^ Suc j) st0) = butlast (fst ((loopBody ^^ j) st0)))
    \<and> fst final = take (length (fst st0) - k) (fst st0)
    \<and> (int (length (snd final)) \<le> limit \<or> length (fst final) \<le> 1)
    \<and> (fst st0 \<noteq> [] \<longrightarrow> fst final \<noteq> [])
    \<and> (0 < k \<longrightarrow> snd final = JSON_stringify
           \<lparr>count = length (fst final), has_more = True, comments = fst final,
            truncated = Some True,
            message = Some (''Response truncated to '' @ Number_toString (int (length (fst final)))
              @ '' comments due to size limits. Use smaller maxComments value.'')\<rparr>)"
proof -
  have returned: "getVideoComments validateUrl spawnPromise JSON_parse url maxComments sortOrder (Some c)
           = Inr (snd final)"
    using getVideoComments_success [of validateUrl url spawnPromise maxComments sortOrder "Some c" out JSON_parse md]
      url run parse limitResult_over [OF over]
    by (simp add: final_def st0_def limit_def)
  have passes: "final = (loopBody ^^ k) st0"
    by (simp add: final_def k_def truncateLoop_funpow)
  have "k \<le> length (fst st0)"
    using loopIterations_less [of limit st0] by (simp add: k_def)
  also have "\<dots> \<le> length (sourceComments md)"
    by (simp add: st0_def buildResponse_comments_le)
  finally have bound: "k \<le> length (sourceComments md)" .
  have drops: "\<forall>j<k. fst ((loopBody ^^ Suc j) st0) = butlast (fst ((loopBody ^^ j) st0))"
    by (simp add: loopBody_fst)
  have kept: "fst final = take (length (fst st0) - k) (fst st0)"
    by (simp add: final_def k_def truncateLoop_funpow funpow_loopBody_fst)
  have fits: "int (length (snd final)) \<le> limit \<or> length (fst final) \<le> 1"
    using truncateLoop_exit [of limit st0] by (auto simp: final_def loopCond_def)
  have nonempty: "fst st0 \<noteq> [] \<longrightarrow> fst final \<noteq> []"
    by (simp add: final_def truncateLoop_nonempty)
  have marked: "0 < k \<longrightarrow> snd final = JSON_stringify
           \<lparr>count = length (fst final), has_more = True, comments = fst final,
            truncated = Some True,
            message = Some (''Response truncated to '' @ Number_toString (int (length (fst final)))
              @ '' comments due to size limits. Use smaller maxComments value.'')\<rparr>"
    using truncateLoop_truncated [of limit st0]
    by (simp add: final_def k_def truncatedResponse_def)
  from returned passes bound drops kept fits nonempty marked show ?thesis
    by (intro conjI)
qed

text \<open>
  The theorem on two comments and a limit of 10: one pass is made, and the response
  returned is the truncated one with the first comment alone.
\<close>

theorem size_loop_bounded_witness:
  "acceptUrl sampleUrl
   \<and> characterLimit (limits (configWithLimit 10))
        < int (length (JSON_stringify (buildResponse twoComments 20)))
   \<and> loopIterations 10
        (comments (buildResponse twoComments 20), JSON_stringify (buildResponse twoComments 20)) = 1
   \<and> getVideoComments acceptUrl (spawnReturns ''{}'') (parseReturns twoComments)
        sampleUrl 20 Top (Some (configWithLimit 10))
      = Inr (JSON_stringify (truncatedResponse [project (sampleComment ''alice'')]))"
proof -
  have url: "acceptUrl sampleUrl"
    by (simp add: acceptUrl_def)
  have run: "spawnReturns ''{}'' ''yt-dlp'' (commentArgs sampleUrl 20 Top (Some (configWithLimit 10))) = Inr ''{}''"
    by (simp add: spawnReturns_def)
  have parse: "parseReturns twoComments ''{}'' = Inr twoComments"
    by (simp add: parseReturns_def)
  have lim: "characterLimit (limits (configWithLimit 10)) = 10"
    by (simp add: configWithLimit_def)
  have over: "characterLimit (limits (configWithLimit 10))
        < int (length (JSON_stringify (buildResponse twoComments 20)))"
    using twoComments_over by (simp only: lim)
  have c0: "loopCond 10 (comments (buildResponse twoComments 20), JSON_stringify (buildResponse twoComments 20))"
    using twoComments_over by (simp add: loopCond_def comments_twoComments)
  have c1: "\<not> loopCond 10 (loopBody (comments (buildResponse twoComments 20), JSON_stringify (buildResponse twoComments 20)))"
    by (simp add: loopCond_def loopBody_fst comments_twoComments)
  have k: "loopIterations 10
        (comments (buildResponse twoComments 20), JSON_stringify (buildResponse twoComments 20)) = 1"
    using c0 c1
    by (simp add: loopIterations.simps
          [of 10 "(comments (buildResponse twoComments 20), JSON_stringify (buildResponse twoComments 20))"]
        loopIterations.simps
          [of 10 "loopBody (comments (buildResponse twoComments 20), JSON_stringify (buildResponse twoComments 20))"])
  from size_loop_bounded
      [where validateUrl = acceptUrl and url = sampleUrl and spawnPromise = "spawnReturns ''{}''"
         and maxComments = 20 and sortOrder = Top and c = "configWithLimit 10" and out = "''{}''"
         and JSON_parse = "parseReturns twoComments" and md = twoComments]
    url run parse over
  have "getVideoComments acceptUrl (spawnReturns ''{}'') (parseReturns twoComments)
        sampleUrl 20 Top (Some (configWithLimit 10))
      = Inr (snd (loopBody (comments (buildResponse twoComments 20), JSON_stringify (buildResponse twoComments 20))))"
    by (simp add: lim k)
  then have "getVideoComments acceptUrl (spawnReturns ''{}'') (parseReturns twoComments)
        sampleUrl 20 Top (Some (configWithLimit 10))
      = Inr (JSON_stringify (truncatedResponse [project (sampleComment ''alice'')]))"
    by (simp add: loopBody_snd comments_twoComments)
  with url over k show ?thesis
    by (intro conjI)
qed

text \<open>
  The claim as the specification states it promises a string that fits or exactly one
  comment, never zero. With no comment in the source and a limit of 10, the response of
  55 characters is returned as it is: it does not fit and holds no comment.
\<close>

theorem size_loop_zero_comments_counterexample:
  "getVideoComments acceptUrl (spawnReturns ''{}'') (parseReturns noComments)
       sampleUrl 20 Top (Some (configWithLimit 10))
     = Inr (JSON_stringify
         \<lparr>count = 0, has_more = False, comments = [], truncated = None, message = None\<rparr>)
   \<and> \<not> int (length (JSON_stringify
         \<lparr>count = 0, has_more = False, comments = [], truncated = None, message = None\<rparr>)) \<le> 10"
proof -
  have r: "buildResponse noComments 20
             = \<lparr>count = 0, has_more = False, comments = [], truncated = None, message = None\<rparr>"
    by (simp add: buildResponse_def sourceComments_def slice0_def noComments_def)
  have big: "\<not> int (length (JSON_stringify
         \<lparr>count = 0, has_more = False, comments = [], truncated = None, message = None\<rparr>)) \<le> 10"
    by (simp add: length_stringify_empty)
  have "limitResult (Some (configWithLimit 10))
          \<lparr>count = 0, has_more = False, comments = [], truncated = None, message = None\<rparr>
        = JSON_stringify \<lparr>count = 0, has_more = False, comments = [], truncated = None, message = None\<rparr>"
    by (simp add: limitResult_def Let_def truncateLoop.simps loopCond_def)
  with r big show ?thesis
    by (simp add: getVideoComments_def acceptUrl_def spawnReturns_def parseReturns_def)
qed

subsection \<open>The response before the size loop\<close>

lemma buildResponse_plain:
  "truncated (buildResponse md maxComments) = None \<and> message (buildResponse md maxComments) = None"
  by (simp add: buildResponse_def Let_def)

lemma buildResponse_count:
  "count (buildResponse md maxComments) = length (comments (buildResponse md maxComments))"
  by (simp add: buildResponse_def Let_def)

lemma limitResult_None: "limitResult None r = JSON_stringify r"
  by (simp add: limitResult_def)

lemma slice0_take:
  "slice0 xs e = (if 0 \<le> e then take (nat e) xs else take (length xs - nat (- e)) xs)"
proof -
  have "e < 0 \<Longrightarrow> nat (int (length xs) + e) = length xs - nat (- e)"
    by arith
  then show ?thesis
    by (simp add: slice0_def)
qed

lemma comments_oneComment:
  "comments (buildResponse oneComment 20) = [project (sampleComment ''alice'')]"
  by (simp add: buildResponse_def sourceComments_def oneComment_def slice0_def)

lemma oneComment_over: "10 < int (length (JSON_stringify (buildResponse oneComment 20)))"
  by (simp add: buildResponse_def sourceComments_def oneComment_def slice0_def project_def
        sampleComment_def json_defs digits10.simps)

text \<open>
  C6, as amended. \<open>has_more\<close> of the response built from the metadata is true exactly
  when the source array is longer than \<open>maxComments\<close>; the comments retained are the
  projections, in source order, of the first \<open>maxComments\<close> entries of the source array
  (all of them when there are fewer) for \<open>maxComments \<ge> 0\<close>, and of all but the last
  \<open>- maxComments\<close> entries for a negative \<open>maxComments\<close>; \<open>count\<close> is their number;
  and a response rebuilt by the size loop has \<open>has_more = true\<close>.
\<close>

theorem has_more_and_retained:
  "has_more (buildResponse md maxComments) = (int (length (sourceComments md)) > maxComments)
   \<and> comments (buildResponse md maxComments)
       = map project
           (if 0 \<le> maxComments then take (nat maxComments) (sourceComments md)
            else take (length (sourceComments md) - nat (- maxComments)) (sourceComments md))
   \<and> count (buildResponse md maxComments) = length (comments (buildResponse md maxComments))
   \<and> has_more (truncatedResponse cs) = True"
  by (simp add: buildResponse_def Let_def slice0_take truncatedResponse_def)

text \<open>
  The claim as the specification states it, for every \<open>maxComments\<close>, fails on a
  negative one: \<open>slice(0, -1)\<close> keeps all entries but the last, so that of two source
  comments one is retained, where no entry is among the first \<open>-1\<close>.
\<close>

theorem negative_maxComments_counterexample:
  "comments (buildResponse twoComments (- 1)) = [project (sampleComment ''alice'')]
   \<and> comments (buildResponse twoComments (- 1))
       \<noteq> map project (take (nat (- 1)) [sampleComment ''alice'', sampleComment ''bob''])"
  by (simp add: buildResponse_def sourceComments_def twoComments_def slice0_def)

text \<open>
  C9. Without a configuration the argument vector is the seven fixed arguments and the
  URL, with no cookie argument, and when the extractor run and the parse succeed the call
  returns the serialization of the response as built, whatever its length, which has
  neither \<open>_truncated\<close> nor \<open>_message\<close>.
\<close>

theorem no_config_no_limit:
  assumes url: "validateUrl url"
    and run: "spawnPromise ''yt-dlp'' (commentArgs url maxComments sortOrder None) = Inr out"
    and parse: "JSON_parse out = Inr md"
  shows "commentArgs url maxComments sortOrder None
           = [''--dump-json'', ''--no-warnings'', ''--no-check-certificate'', ''--write-comments'',
              ''--extractor-args'',
              ''youtube:comment_sort='' @ sortOrderString sortOrder @ '';max_comments=''
                @ Number_toString maxComments @ '',all,all'',
              ''--skip-download'', url]
    \<and> getVideoComments validateUrl spawnPromise JSON_parse url maxComments sortOrder None
         = Inr (JSON_stringify (buildResponse md maxComments))
    \<and> truncated (buildResponse md maxComments) = None
    \<and> message (buildResponse md maxComments) = None"
proof -
  have args: "commentArgs url maxComments sortOrder None
           = [''--dump-json'', ''--no-warnings'', ''--no-check-certificate'', ''--write-comments'',
              ''--extractor-args'',
              ''youtube:comment_sort='' @ sortOrderString sortOrder @ '';max_comments=''
                @ Number_toString maxComments @ '',all,all'',
              ''--skip-download'', url]"
    by (simp add: commentArgs_def)
  have ret: "getVideoComments validateUrl spawnPromise JSON_parse url maxComments sortOrder None
         = Inr (JSON_stringify (buildResponse md maxComments))"
    using getVideoComments_success
      [of validateUrl url spawnPromise maxComments sortOrder None out JSON_parse md]
      url run parse
    by (simp add: limitResult_None)
  from args ret buildResponse_plain [of md maxComments] show ?thesis
    by (intro conjI) simp_all
qed

text \<open>The theorem on two comments: both are returned.\<close>

theorem no_config_no_limit_witness:
  "acceptUrl sampleUrl
   \<and> getVideoComments acceptUrl (spawnReturns ''{}'') (parseReturns twoComments)
        sampleUrl 20 Top None
      = Inr (JSON_stringify
          \<lparr>count = 2, has_more = False,
           comments = [project (sampleComment ''alice''), project (sampleComment ''bob'')],
           truncated = None, message = None\<rparr>)"
proof -
  have url: "acceptUrl sampleUrl"
    by (simp add: acceptUrl_def)
  have run: "spawnReturns ''{}'' ''yt-dlp'' (commentArgs sampleUrl 20 Top None) = Inr ''{}''"
    by (simp add: spawnReturns_def)
  have parse: "parseReturns twoComments ''{}'' = Inr twoComments"
    by (simp add: parseReturns_def)
  have r: "buildResponse twoComments 20
         = \<lparr>count = 2, has_more = False,
            comments = [project (sampleComment ''alice''), project (sampleComment ''bob'')],
            truncated = None, message = None\<rparr>"
    by (simp add: buildResponse_def sourceComments_def twoComments_def slice0_def)
  from no_config_no_limit
      [where validateUrl = acceptUrl and url = sampleUrl and spawnPromise = "spawnReturns ''{}''"
         and maxComments = 20 and sortOrder = Top and out = "''{}''"
         and JSON_parse = "parseReturns twoComments" and md = twoComments]
    url run parse
  have "getVideoComments acceptUrl (spawnReturns ''{}'') (parseReturns twoComments)
        sampleUrl 20 Top None
      = Inr (JSON_stringify (buildResponse twoComments 20))"
    by blast
  with url show ?thesis
    by (simp only: r simp_thms)
qed

text \<open>
  C10. When the response built has exactly one comment and its serialization is longer
  than \<open>characterLimit\<close>, the loop makes no pass and the call returns that first
  serialization: \<open>count\<close> is 1, \<open>has_more\<close> is the comparison of the source length
  with \<open>maxComments\<close>, and \<open>_truncated\<close> and \<open>_message\<close> are absent.
\<close>

theorem single_comment_untouched:
  assumes url: "validateUrl url"
    and run: "spawnPromise ''yt-dlp'' (commentArgs url maxComments sortOrder (Some c)) = Inr out"
    and parse: "JSON_parse out = Inr md"
    and one: "length (comments (buildResponse md maxComments)) = 1"
    and over: "characterLimit (limits c) < int (length (JSON_stringify (buildResponse md maxComments)))"
  shows "loopIterations (characterLimit (limits c))
           (comments (buildResponse md maxComments), JSON_stringify (buildResponse md maxComments)) = 0
    \<and> getVideoComments validateUrl spawnPromise JSON_parse url maxComments sortOrder (Some c)
         = Inr (JSON_stringify (buildResponse md maxComments))
    \<and> count (buildResponse md maxComments) = 1
    \<and> has_more (buildResponse md maxComments) = (maxComments < int (length (sourceComments md)))
    \<and> truncated (buildResponse md maxComments) = None
    \<and> message (buildResponse md maxComments) = None"
proof -
  let ?r = "buildResponse md maxComments"
  let ?st = "(comments ?r, JSON_stringify ?r)"
  have stop: "\<not> loopCond (characterLimit (limits c)) ?st"
    using one by (simp add: loopCond_def)
  then have zero: "loopIterations (characterLimit (limits c)) ?st = 0"
    by (simp add: loopIterations.simps [of _ ?st])
  from stop have "truncateLoop (characterLimit (limits c)) ?st = ?st"
    by (simp add: truncateLoop.simps [of _ ?st])
  then have "limitResult (Some c) ?r = JSON_stringify ?r"
    using limitResult_over [OF over] by simp
  then have ret: "getVideoComments validateUrl spawnPromise JSON_parse url maxComments sortOrder (Some c)
         = Inr (JSON_stringify ?r)"
    using getVideoComments_success
      [of validateUrl url spawnPromise maxComments sortOrder "Some c" out JSON_parse md]
      url run parse
    by simp
  have cnt: "count ?r = 1"
    using one by (simp add: buildResponse_count)
  have more: "has_more ?r = (maxComments < int (length (sourceComments md)))"
    by (simp add: buildResponse_def Let_def)
  from zero ret cnt more buildResponse_plain [of md maxComments] show ?thesis
    by simp
qed

text \<open>The theorem on one comment and a limit of 10.\<close>

theorem single_comment_untouched_witness:
  "acceptUrl sampleUrl
   \<and> length (comments (buildResponse oneComment 20)) = 1
   \<and> characterLimit (limits (configWithLimit 10))
        < int (length (JSON_stringify (buildResponse oneComment 20)))
   \<and> getVideoComments acceptUrl (spawnReturns ''{}'') (parseReturns oneComment)
        sampleUrl 20 Top (Some (configWithLimit 10))
      = Inr (JSON_stringify
          \<lparr>count = 1, has_more = False, comments = [project (sampleComment ''alice'')],
           truncated = None, message = None\<rparr>)"
proof -
  have url: "acceptUrl sampleUrl"
    by (simp add: acceptUrl_def)
  have run: "spawnReturns ''{}'' ''yt-dlp'' (commentArgs sampleUrl 20 Top (Some (configWithLimit 10))) = Inr ''{}''"
    by (simp add: spawnReturns_def)
  have parse: "parseReturns oneComment ''{}'' = Inr oneComment"
    by (simp add: parseReturns_def)
  have one: "length (comments (buildResponse oneComment 20)) = 1"
    by (simp add: comments_oneComment)
  have over: "characterLimit (limits (configWithLimit 10))
        < int (length (JSON_stringify (buildResponse oneComment 20)))"
    using oneComment_over by (simp add: configWithLimit_def)
  have r: "buildResponse oneComment 20
         = \<lparr>count = 1, has_more = False, comments = [project (sampleComment ''alice'')],
            truncated = None, message = None\<rparr>"
    by (simp add: buildResponse_def sourceComments_def oneComment_def slice0_def)
  from single_comment_untouched
      [where validateUrl = acceptUrl and url = sampleUrl and spawnPromise = "spawnReturns ''{}''"
         and maxComments = 20 and sortOrder = Top and c = "configWithLimit 10" and out = "''{}''"
         and JSON_parse = "parseReturns oneComment" and md = oneComment]
    url run parse one over
  have "getVideoComments acceptUrl (spawnReturns ''{}'') (parseReturns oneComment)
        sampleUrl 20 Top (Some (configWithLimit 10))
      = Inr (JSON_stringify (buildResponse oneComment 20))"
    by blast
  with url one over show ?thesis
    by (simp only: r simp_thms)
qed

subsection \<open>Error classification\<close>

lemma getVideoComments_failure:
  assumes "validateUrl url"
    and "spawnPromise ''yt-dlp'' (commentArgs url maxComments sortOrder config) = Inl e
         \<or> (\<exists>out. spawnPromise ''yt-dlp'' (commentArgs url maxComments sortOrder config) = Inr out
               \<and> JSON_parse out = Inl e)"
  shows "getVideoComments validateUrl spawnPromise JSON_parse url maxComments sortOrder config
           = Inl (classifyError url e)"
  using assms by (auto simp: getVideoComments_def)

text \<open>
  C3. When the URL is valid and the extractor run or the parse of its output throws \<open>e\<close>,
  the call throws an \<open>Error\<close> whose message is decided by the first of these tests that
  the message \<open>msg\<close> of \<open>e\<close> passes: it contains \<open>Video unavailable\<close> or \<open>private\<close>;
  \<open>Unsupported URL\<close> or \<open>extractor\<close>; \<open>network\<close> or \<open>Connection\<close>;
  \<open>comments are disabled\<close> or \<open>Comments are turned off\<close>; \<open>Sign in\<close> or \<open>age\<close>. When
  none passes, the message is wrapped. When \<open>e\<close> is not an \<open>Error\<close>, the message is the
  generic one with the URL.
\<close>

theorem error_classification:
  fixes msg :: string
  assumes url: "validateUrl url"
    and fail: "spawnPromise ''yt-dlp'' (commentArgs url maxComments sortOrder config) = Inl e
         \<or> (\<exists>out. spawnPromise ''yt-dlp'' (commentArgs url maxComments sortOrder config) = Inr out
               \<and> JSON_parse out = Inl e)"
  defines "r1 \<equiv> str_includes msg ''Video unavailable'' \<or> str_includes msg ''private''"
    and "r2 \<equiv> str_includes msg ''Unsupported URL'' \<or> str_includes msg ''extractor''"
    and "r3 \<equiv> str_includes msg ''network'' \<or> str_includes msg ''Connection''"
    and "r4 \<equiv> str_includes msg ''comments are disabled'' \<or> str_includes msg ''Comments are turned off''"
    and "r5 \<equiv> str_includes msg ''Sign in'' \<or> str_includes msg ''age''"
    and "result \<equiv> getVideoComments validateUrl spawnPromise JSON_parse url maxComments sortOrder config"
  shows "(e = Error msg \<and> r1 \<longrightarrow>
            result = Inl (Error (''Video is unavailable or private: '' @ url
                       @ ''. Check the URL and video privacy settings.'')))
    \<and> (e = Error msg \<and> \<not> r1 \<and> r2 \<longrightarrow>
            result = Inl (Error (''Unsupported platform or video URL: '' @ url
                       @ ''. Comments extraction is primarily supported for YouTube.'')))
    \<and> (e = Error msg \<and> \<not> r1 \<and> \<not> r2 \<and> r3 \<longrightarrow>
            result = Inl (Error
              ''Network error while extracting comments. Check your internet connection and retry.''))
    \<and> (e = Error msg \<and> \<not> r1 \<and> \<not> r2 \<and> \<not> r3 \<and> r4 \<longrightarrow>
            result = Inl (Error (''Comments are disabled for this video: '' @ url)))
    \<and> (e = Error msg \<and> \<not> r1 \<and> \<not> r2 \<and> \<not> r3 \<and> \<not> r4 \<and> r5 \<longrightarrow>
            result = Inl (Error
              ''This video requires authentication to view comments. Configure cookies in your settings.''))
    \<and> (e = Error msg \<and> \<not> r1 \<and> \<not> r2 \<and> \<not> r3 \<and> \<not> r4 \<and> \<not> r5 \<longrightarrow>
            result = Inl (Error (''Failed to extract video comments: '' @ msg
                       @ ''. Verify the URL is correct.'')))
    \<and> (e = NonError \<longrightarrow>
            result = Inl (Error (''Failed to extract video comments from '' @ url)))"
proof -
  have "result = Inl (classifyError url e)"
    unfolding result_def using url fail by (rule getVideoComments_failure)
  then show ?thesis
    by (simp add: classifyError_def r1_def r2_def r3_def r4_def r5_def)
qed

text \<open>
  The theorem on seven failures, one for each outcome; the first message also contains
  \<open>Sign in\<close>, and the first test wins.
\<close>

theorem error_classification_witness:
  "getVideoComments acceptUrl (spawnThrows (Error ''This video is private. Sign in to view'')) (parseReturns noComments) sampleUrl 20 Top None
       = Inl (Error (''Video is unavailable or private: '' @ sampleUrl @ ''. Check the URL and video privacy settings.''))
   \<and> getVideoComments acceptUrl (spawnThrows (Error ''ERROR: Unsupported URL: https://example.com/'')) (parseReturns noComments) sampleUrl 20 Top None
       = Inl (Error (''Unsupported platform or video URL: '' @ sampleUrl @ ''. Comments extraction is primarily supported for YouTube.''))
   \<and> getVideoComments acceptUrl (spawnThrows (Error ''Connection reset by peer'')) (parseReturns noComments) sampleUrl 20 Top None
       = Inl (Error ''Network error while extracting comments. Check your internet connection and retry.'')
   \<and> getVideoComments acceptUrl (spawnThrows (Error ''Comments are turned off'')) (parseReturns noComments) sampleUrl 20 Top None
       = Inl (Error (''Comments are disabled for this video: '' @ sampleUrl))
   \<and> getVideoComments acceptUrl (spawnThrows (Error ''Sign in to confirm you are not a bot'')) (parseReturns noComments) sampleUrl 20 Top None
       = Inl (Error ''This video requires authentication to view comments. Configure cookies in your settings.'')
   \<and> getVideoComments acceptUrl (spawnReturns ''{'') (parseThrows (Error ''Unexpected end of JSON input'')) sampleUrl 20 Top None
       = Inl (Error (''Failed to extract video comments: Unexpected end of JSON input. Verify the URL is correct.''))
   \<and> getVideoComments acceptUrl (spawnThrows NonError) (parseReturns noComments) sampleUrl 20 Top None
       = Inl (Error (''Failed to extract video comments from '' @ sampleUrl))"
proof -
  have c1: "getVideoComments acceptUrl (spawnThrows (Error ''This video is private. Sign in to view'')) (parseReturns noComments) sampleUrl 20 Top None
       = Inl (Error (''Video is unavailable or private: '' @ sampleUrl @ ''. Check the URL and video privacy settings.''))"
    using error_classification
      [where validateUrl = acceptUrl and url = sampleUrl and spawnPromise = "spawnThrows (Error ''This video is private. Sign in to view'')"
         and JSON_parse = "parseReturns noComments" and maxComments = 20 and sortOrder = Top
         and config = None and e = "Error ''This video is private. Sign in to view''" and msg = "''This video is private. Sign in to view''"]
    by (simp add: acceptUrl_def spawnThrows_def spawnReturns_def parseThrows_def)
  have c2: "getVideoComments acceptUrl (spawnThrows (Error ''ERROR: Unsupported URL: https://example.com/'')) (parseReturns noComments) sampleUrl 20 Top None
       = Inl (Error (''Unsupported platform or video URL: '' @ sampleUrl @ ''. Comments extraction is primarily supported for YouTube.''))"
    using error_classification
      [where validateUrl = acceptUrl and url = sampleUrl and spawnPromise = "spawnThrows (Error ''ERROR: Unsupported URL: https://example.com/'')"
         and JSON_parse = "parseReturns noComments" and maxComments = 20 and sortOrder = Top
         and config = None and e = "Error ''ERROR: Unsupported URL: https://example.com/''" and msg = "''ERROR: Unsupported URL: https://example.com/''"]
    by (simp add: acceptUrl_def spawnThrows_def spawnReturns_def parseThrows_def)
  have c3: "getVideoComments acceptUrl (spawnThrows (Error ''Connection reset by peer'')) (parseReturns noComments) sampleUrl 20 Top None
       = Inl (Error ''Network error while extracting comments. Check your internet connection and retry.'')"
    using error_classification
      [where validateUrl = acceptUrl and url = sampleUrl and spawnPromise = "spawnThrows (Error ''Connection reset by peer'')"
         and JSON_parse = "parseReturns noComments" and maxComments = 20 and sortOrder = Top
         and config = None and e = "Error ''Connection reset by peer''" and msg = "''Connection reset by peer''"]
    by (simp add: acceptUrl_def spawnThrows_def spawnReturns_def parseThrows_def)
  have c4: "getVideoComments acceptUrl (spawnThrows (Error ''Comments are turned off'')) (parseReturns noComments) sampleUrl 20 Top None
       = Inl (Error (''Comments are disabled for this video: '' @ sampleUrl))"
    using error_classification
      [where validateUrl = acceptUrl and url = sampleUrl and spawnPromise = "spawnThrows (Error ''Comments are turned off'')"
         and JSON_parse = "parseReturns noComments" and maxComments = 20 and sortOrder = Top
         and config = None and e = "Error ''Comments are turned off''" and msg = "''Comments are turned off''"]
    by (simp add: acceptUrl_def spawnThrows_def spawnReturns_def parseThrows_def)
  have c5: "getVideoComments acceptUrl (spawnThrows (Error ''Sign in to confirm you are not a bot'')) (parseReturns noComments) sampleUrl 20 Top None
       = Inl (Error ''This video requires authentication to view comments. Configure cookies in your settings.'')"
    using error_classification
      [where validateUrl = acceptUrl and url = sampleUrl and spawnPromise = "spawnThrows (Error ''Sign in to confirm you are not a bot'')"
         and JSON_parse = "parseReturns noComments" and maxComments = 20 and sortOrder = Top
         and config = None and e = "Error ''Sign in to confirm you are not a bot''" and msg = "''Sign in to confirm you are not a bot''"]
    by (simp add: acceptUrl_def spawnThrows_def spawnReturns_def parseThrows_def)
  have c6: "getVideoComments acceptUrl (spawnReturns ''{'') (parseThrows (Error ''Unexpected end of JSON input'')) sampleUrl 20 Top None
       = Inl (Error (''Failed to extract video comments: Unexpected end of JSON input. Verify the URL is correct.''))"
    using error_classification
      [where validateUrl = acceptUrl and url = sampleUrl and spawnPromise = "spawnReturns ''{''"
         and JSON_parse = "parseThrows (Error ''Unexpected end of JSON input'')" and maxComments = 20 and sortOrder = Top
         and config = None and e = "Error ''Unexpected end of JSON input''" and msg = "''Unexpected end of JSON input''"]
    by (simp add: acceptUrl_def spawnThrows_def spawnReturns_def parseThrows_def)
  have c7: "getVideoComments acceptUrl (spawnThrows NonError) (parseReturns noComments) sampleUrl 20 Top None
       = Inl (Error (''Failed to extract video comments from '' @ sampleUrl))"
    using error_classification
      [where validateUrl = acceptUrl and url = sampleUrl and spawnPromise = "spawnThrows NonError"
         and JSON_parse = "parseReturns noComments" and maxComments = 20 and sortOrder = Top
         and config = None and e = "NonError" and msg = "[]"]
    by (simp add: acceptUrl_def spawnThrows_def spawnReturns_def parseThrows_def)
  from c1 c2 c3 c4 c5 c6 c7 show ?thesis
    by (intro conjI)
qed

section \<open>Properties of the configuration\<close>

subsection \<open>Cookie arguments\<close>

text \<open>
  C1, as amended. A cookie field counts as set when it holds a non-empty string. For
  every configuration \<open>getCookieArgs\<close> returns the empty list when neither field is set;
  exactly \<open>["--cookies", F]\<close> when \<open>cookies.file\<close> is the non-empty string \<open>F\<close>,
  whatever \<open>cookies.fromBrowser\<close> is; exactly \<open>["--cookies-from-browser", B]\<close> when
  \<open>cookies.file\<close> is not set and \<open>cookies.fromBrowser\<close> is the non-empty string \<open>B\<close>;
  and so always the empty list or a list of two elements.
\<close>

theorem getCookieArgs_contract:
  "(\<not> truthy (cookie_file (cookies c)) \<and> \<not> truthy (fromBrowser (cookies c))
      \<longrightarrow> getCookieArgs c = [])
   \<and> (\<forall>F. cookie_file (cookies c) = Some F \<and> F \<noteq> []
      \<longrightarrow> getCookieArgs c = [''--cookies'', F])
   \<and> (\<forall>B. \<not> truthy (cookie_file (cookies c)) \<and> fromBrowser (cookies c) = Some B \<and> B \<noteq> []
      \<longrightarrow> getCookieArgs c = [''--cookies-from-browser'', B])
   \<and> (getCookieArgs c = [] \<or> length (getCookieArgs c) = 2)"
  by (simp add: getCookieArgs_def truthy_def)

text \<open>
  The theorem on four configurations: no cookie field, an empty file field, both fields
  set, and the browser field alone.
\<close>

theorem getCookieArgs_contract_witness:
  "getCookieArgs (configWithCookies None None) = []
   \<and> getCookieArgs (configWithCookies (Some []) None) = []
   \<and> getCookieArgs (configWithCookies (Some ''/tmp/cookies.txt'') (Some ''chrome''))
       = [''--cookies'', ''/tmp/cookies.txt'']
   \<and> getCookieArgs (configWithCookies None (Some ''firefox::work''))
       = [''--cookies-from-browser'', ''firefox::work'']"
proof -
  have a: "getCookieArgs (configWithCookies None None) = []"
    using getCookieArgs_contract [of "configWithCookies None None"]
    by (simp add: configWithCookies_def truthy_def)
  have b: "getCookieArgs (configWithCookies (Some []) None) = []"
    using getCookieArgs_contract [of "configWithCookies (Some []) None"]
    by (simp add: configWithCookies_def truthy_def)
  have c: "getCookieArgs (configWithCookies (Some ''/tmp/cookies.txt'') (Some ''chrome''))
       = [''--cookies'', ''/tmp/cookies.txt'']"
    using getCookieArgs_contract [of "configWithCookies (Some ''/tmp/cookies.txt'') (Some ''chrome'')"]
    by (simp add: configWithCookies_def truthy_def)
  have d: "getCookieArgs (configWithCookies None (Some ''firefox::work''))
       = [''--cookies-from-browser'', ''firefox::work'']"
    using getCookieArgs_contract [of "configWithCookies None (Some ''firefox::work'')"]
    by (simp add: configWithCookies_def truthy_def)
  from a b c d show ?thesis
    by (intro conjI)
qed

text \<open>
  The claim as the specification states it gives \<open>["--cookies", F]\<close> whenever
  \<open>cookies.file = F\<close>. For the empty string the test \<open>if (config.cookies.file)\<close> fails
  and the browser field decides.
\<close>

theorem getCookieArgs_empty_file_counterexample:
  "getCookieArgs (configWithCookies (Some []) (Some ''chrome'')) = [''--cookies-from-browser'', ''chrome'']
   \<and> getCookieArgs (configWithCookies (Some []) (Some ''chrome'')) \<noteq> [''--cookies'', []]"
  by (simp add: getCookieArgs_def truthy_def configWithCookies_def)

section \<open>Properties of the summary\<close>

lemma authorLine_append:
  "authorLine toLocaleString c =
     ''Author: ''
     @ (case author c of None \<Rightarrow> ''Unknown'' | Some a \<Rightarrow> if a = [] then ''Unknown'' else a)
     @ (if author_is_uploader c = Some True then '' [UPLOADER]'' else [])
     @ (if author_is_verified c = Some True then '' [VERIFIED]'' else [])
     @ (if is_pinned c = Some True then '' [PINNED]'' else [])
     @ (case time_text c of None \<Rightarrow> [] | Some t \<Rightarrow> if t = [] then [] else '' ('' @ t @ '')'')
     @ (case like_count c of
          None \<Rightarrow> []
        | Some n \<Rightarrow> if 0 < n then '' - '' @ toLocaleString n @ '' likes'' else [])"
  by (simp add: authorLine_def Let_def or_string_def truthy_def split: option.splits)

lemma toLocaleString_1234: "toLocaleString_enUS 1234 = ''1,234''"
  by (simp add: toLocaleString_enUS_def groupThousands.simps digits10.simps pad3_def digitChar_def)

text \<open>
  C8, as amended. The author line of every comment is \<open>Author: \<close> followed by the
  author, or by \<open>Unknown\<close> when the author is absent or empty; then \<open>[UPLOADER]\<close>,
  \<open>[VERIFIED]\<close> and \<open>[PINNED]\<close>, in this order, each when its flag is true; then the
  time text in parentheses when it is present and not empty; then the like count as
  \<open>toLocaleString\<close> renders it, between a hyphen and \<open>likes\<close>, when it is positive. In
  the \<open>en-US\<close> locale a comment of the uploader that is pinned and has 1234 likes has
  \<open>[UPLOADER]\<close>, \<open>[PINNED]\<close> and \<open>1,234 likes\<close> in its line, in this order.
\<close>

theorem authorLine_format:
  "authorLine toLocaleString c =
     ''Author: ''
     @ (case author c of None \<Rightarrow> ''Unknown'' | Some a \<Rightarrow> if a = [] then ''Unknown'' else a)
     @ (if author_is_uploader c = Some True then '' [UPLOADER]'' else [])
     @ (if author_is_verified c = Some True then '' [VERIFIED]'' else [])
     @ (if is_pinned c = Some True then '' [PINNED]'' else [])
     @ (case time_text c of None \<Rightarrow> [] | Some t \<Rightarrow> if t = [] then [] else '' ('' @ t @ '')'')
     @ (case like_count c of
          None \<Rightarrow> []
        | Some n \<Rightarrow> if 0 < n then '' - '' @ toLocaleString n @ '' likes'' else [])
   \<and> (author_is_uploader c = Some True \<and> is_pinned c = Some True \<and> like_count c = Some 1234
        \<longrightarrow> (\<exists>name verified time.
              authorLine toLocaleString_enUS c
                = ''Author: '' @ name @ '' [UPLOADER]'' @ verified @ '' [PINNED]'' @ time
                    @ '' - 1,234 likes''))"
proof (intro conjI impI)
  show "authorLine toLocaleString c =
     ''Author: ''
     @ (case author c of None \<Rightarrow> ''Unknown'' | Some a \<Rightarrow> if a = [] then ''Unknown'' else a)
     @ (if author_is_uploader c = Some True then '' [UPLOADER]'' else [])
     @ (if author_is_verified c = Some True then '' [VERIFIED]'' else [])
     @ (if is_pinned c = Some True then '' [PINNED]'' else [])
     @ (case time_text c of None \<Rightarrow> [] | Some t \<Rightarrow> if t = [] then [] else '' ('' @ t @ '')'')
     @ (case like_count c of
          None \<Rightarrow> []
        | Some n \<Rightarrow> if 0 < n then '' - '' @ toLocaleString n @ '' likes'' else [])"
    by (rule authorLine_append)
next
  assume h: "author_is_uploader c = Some True \<and> is_pinned c = Some True \<and> like_count c = Some 1234"
  have "authorLine toLocaleString_enUS c
      = ''Author: ''
        @ (case author c of None \<Rightarrow> ''Unknown'' | Some a \<Rightarrow> if a = [] then ''Unknown'' else a)
        @ '' [UPLOADER]''
        @ (if author_is_verified c = Some True then '' [VERIFIED]'' else [])
        @ '' [PINNED]''
        @ (case time_text c of None \<Rightarrow> [] | Some t \<Rightarrow> if t = [] then [] else '' ('' @ t @ '')'')
        @ '' - 1,234 likes''"
    using h by (simp add: authorLine_append [of toLocaleString_enUS c] toLocaleString_1234)
  then show "\<exists>name verified time.
              authorLine toLocaleString_enUS c
                = ''Author: '' @ name @ '' [UPLOADER]'' @ verified @ '' [PINNED]'' @ time
                    @ '' - 1,234 likes''"
    by blast
qed

text \<open>The theorem on a pinned comment of the uploader with 1234 likes.\<close>

theorem authorLine_format_witness:
  "authorLine toLocaleString_enUS
      (emptyComment\<lparr>author := Some ''jawed'', author_is_uploader := Some True,
         is_pinned := Some True, like_count := Some 1234, time_text := Some ''2 days ago''\<rparr>)
     = ''Author: jawed [UPLOADER] [PINNED] (2 days ago) - 1,234 likes''"
  using authorLine_format
    [of toLocaleString_enUS
      "emptyComment\<lparr>author := Some ''jawed'', author_is_uploader := Some True,
         is_pinned := Some True, like_count := Some 1234, time_text := Some ''2 days ago''\<rparr>"]
  by (simp add: emptyComment_def toLocaleString_1234)

text \<open>
  The claim as the specification states it puts the author name after \<open>Author: \<close>
  unless the author is absent, and has \<open>1,234 likes\<close> in the line of a comment with 1234
  likes. An author that is present and empty is rendered as \<open>Unknown\<close>, since
  \<open>comment.author || 'Unknown'\<close> takes the empty string for falsy; and in the \<open>de-DE\<close>
  locale the line of such a comment ends in \<open>1.234 likes\<close>.
\<close>

theorem authorLine_counterexample:
  "authorLine toLocaleString_enUS (emptyComment\<lparr>author := Some []\<rparr>) = ''Author: Unknown''
   \<and> authorLine toLocaleString_enUS (emptyComment\<lparr>author := Some []\<rparr>) \<noteq> ''Author: ''
   \<and> authorLine toLocaleString_deDE
        (emptyComment\<lparr>author_is_uploader := Some True, is_pinned := Some True,
           like_count := Some 1234\<rparr>)
       = ''Author: Unknown [UPLOADER] [PINNED] - 1.234 likes''
   \<and> \<not> str_includes ''Author: Unknown [UPLOADER] [PINNED] - 1.234 likes'' ''1,234 likes''"
proof -
  have de: "toLocaleString_deDE 1234 = ''1.234''"
    by (simp add: toLocaleString_deDE_def groupThousands.simps digits10.simps pad3_def digitChar_def)
  have a: "authorLine toLocaleString_enUS (emptyComment\<lparr>author := Some []\<rparr>) = ''Author: Unknown''"
    by (simp add: authorLine_def Let_def or_string_def truthy_def emptyComment_def)
  have b: "authorLine toLocaleString_deDE
        (emptyComment\<lparr>author_is_uploader := Some True, is_pinned := Some True,
           like_count := Some 1234\<rparr>)
       = ''Author: Unknown [UPLOADER] [PINNED] - 1.234 likes''"
    by (simp add: authorLine_def Let_def or_string_def truthy_def emptyComment_def de)
  have c: "\<not> str_includes ''Author: Unknown [UPLOADER] [PINNED] - 1.234 likes'' ''1,234 likes''"
    by simp
  from a b c show ?thesis
    by simp
qed

section \<open>Properties of loading the configuration\<close>

subsection \<open>The merged configuration as a function of the environment\<close>

lemma whenSet_nonempty: "whenSet env name = Some v \<Longrightarrow> v \<noteq> []"
  by (auto simp: whenSet_def truthy_def split: if_splits option.splits)

lemma bind_if_None: "Option.bind (if P then None else Some x) f = (if P then None else f x)"
  by simp

lemma loadEnvConfig_Inr:
  assumes "loadEnvConfig compile env = Inr envConfig"
  shows "\<exists>re. envConfig =
           \<lparr>p_fileConfig = Some (envFileConfig re env),
            p_tools = None,
            p_download =
              (if p_defaultResolution (envDownloadConfig env) = None
                  \<and> p_defaultAudioFormat (envDownloadConfig env) = None
                  \<and> p_defaultSubtitleLanguage (envDownloadConfig env) = None
               then None else Some (envDownloadConfig env)),
            p_limits = None,
            p_cookies =
              (if p_cookie_file (envCookiesConfig env) = None
                  \<and> p_fromBrowser (envCookiesConfig env) = None
               then None else Some (envCookiesConfig env))\<rparr>"
  using assms by (auto simp: loadEnvConfig_def split: sum.splits)

lemma merge_env_limits:
  assumes "loadEnvConfig compile env = Inr envConfig"
  shows "limits (mergeConfig (defaultConfig home) envConfig)
           = \<lparr>characterLimit = 25000, maxTranscriptLength = 50000\<rparr>"
proof -
  from loadEnvConfig_Inr [OF assms] have "p_limits envConfig = None"
    by auto
  then show ?thesis
    by (simp add: mergeConfig_def Let_def or_number_def defaultConfig_def)
qed

lemma merge_env_cookies:
  assumes "loadEnvConfig compile env = Inr envConfig"
  shows "cookie_file (cookies (mergeConfig (defaultConfig home) envConfig))
           = whenSet env ''YTDLP_COOKIES_FILE''"
    and "fromBrowser (cookies (mergeConfig (defaultConfig home) envConfig))
           = whenSet env ''YTDLP_COOKIES_FROM_BROWSER''"
proof -
  from loadEnvConfig_Inr [OF assms]
  have c: "p_cookies envConfig =
             (if p_cookie_file (envCookiesConfig env) = None
                 \<and> p_fromBrowser (envCookiesConfig env) = None
              then None else Some (envCookiesConfig env))"
    by auto
  show "cookie_file (cookies (mergeConfig (defaultConfig home) envConfig))
           = whenSet env ''YTDLP_COOKIES_FILE''"
    by (simp add: mergeConfig_def Let_def c bind_if_None nullish_def defaultConfig_def
        envCookiesConfig_def split: option.splits)
  show "fromBrowser (cookies (mergeConfig (defaultConfig home) envConfig))
           = whenSet env ''YTDLP_COOKIES_FROM_BROWSER''"
    by (simp add: mergeConfig_def Let_def c bind_if_None nullish_def defaultConfig_def
        envCookiesConfig_def split: option.splits)
qed

lemma merge_env_file:
  assumes "loadEnvConfig compile env = Inr envConfig"
  shows "maxFilenameLength (fileConfig (mergeConfig (defaultConfig home) envConfig))
           = or_number (map_option parseInt (whenSet env ''YTDLP_MAX_FILENAME_LENGTH'')) 50"
    and "downloadsDir (fileConfig (mergeConfig (defaultConfig home) envConfig))
           = or_string (whenSet env ''YTDLP_DOWNLOADS_DIR'') home"
    and "tempDirPrefix (fileConfig (mergeConfig (defaultConfig home) envConfig))
           = or_string (whenSet env ''YTDLP_TEMP_DIR_PREFIX'') ''ytdlp-''"
proof -
  from loadEnvConfig_Inr [OF assms]
  obtain re where f: "p_fileConfig envConfig = Some (envFileConfig re env)"
    by auto
  show "maxFilenameLength (fileConfig (mergeConfig (defaultConfig home) envConfig))
           = or_number (map_option parseInt (whenSet env ''YTDLP_MAX_FILENAME_LENGTH'')) 50"
    by (simp add: mergeConfig_def Let_def f envFileConfig_def defaultConfig_def)
  show "downloadsDir (fileConfig (mergeConfig (defaultConfig home) envConfig))
           = or_string (whenSet env ''YTDLP_DOWNLOADS_DIR'') home"
    by (simp add: mergeConfig_def Let_def f envFileConfig_def defaultConfig_def)
  show "tempDirPrefix (fileConfig (mergeConfig (defaultConfig home) envConfig))
           = or_string (whenSet env ''YTDLP_TEMP_DIR_PREFIX'') ''ytdlp-''"
    by (simp add: mergeConfig_def Let_def f envFileConfig_def defaultConfig_def)
qed

lemma merge_env_download:
  assumes "loadEnvConfig compile env = Inr envConfig"
  shows "defaultResolution (download (mergeConfig (defaultConfig home) envConfig))
           = or_string (p_defaultResolution (envDownloadConfig env)) ''720p''"
    and "defaultAudioFormat (download (mergeConfig (defaultConfig home) envConfig))
           = or_string (p_defaultAudioFormat (envDownloadConfig env)) ''m4a''"
    and "defaultSubtitleLanguage (download (mergeConfig (defaultConfig home) envConfig))
           = or_string (whenSet env ''YTDLP_DEFAULT_SUBTITLE_LANG'') ''en''"
proof -
  from loadEnvConfig_Inr [OF assms]
  have d: "p_download envConfig =
             (if p_defaultResolution (envDownloadConfig env) = None
                  \<and> p_defaultAudioFormat (envDownloadConfig env) = None
                  \<and> p_defaultSubtitleLanguage (envDownloadConfig env) = None
               then None else Some (envDownloadConfig env))"
    by auto
  have l: "p_defaultSubtitleLanguage (envDownloadConfig env) = whenSet env ''YTDLP_DEFAULT_SUBTITLE_LANG''"
    by (simp add: envDownloadConfig_def)
  show "defaultResolution (download (mergeConfig (defaultConfig home) envConfig))
           = or_string (p_defaultResolution (envDownloadConfig env)) ''720p''"
    by (simp add: mergeConfig_def Let_def d bind_if_None defaultConfig_def or_string_def truthy_def)
  show "defaultAudioFormat (download (mergeConfig (defaultConfig home) envConfig))
           = or_string (p_defaultAudioFormat (envDownloadConfig env)) ''m4a''"
    by (simp add: mergeConfig_def Let_def d bind_if_None defaultConfig_def or_string_def truthy_def)
  show "defaultSubtitleLanguage (download (mergeConfig (defaultConfig home) envConfig))
           = or_string (whenSet env ''YTDLP_DEFAULT_SUBTITLE_LANG'') ''en''"
    using l by (simp add: mergeConfig_def Let_def d bind_if_None defaultConfig_def or_string_def truthy_def)
qed

subsection \<open>Validation\<close>

lemma startsWith_append: "startsWith (b @ c) b"
  by (induction b) auto

lemma str_includes_startsWith: "startsWith s b \<Longrightarrow> str_includes s b"
  by (cases s; cases b) auto

lemma str_includes_append: "str_includes (a @ b @ c) b"
  by (induction a) (auto simp: str_includes_startsWith startsWith_append)

lemma split_nonempty: "split sep b \<noteq> []"
  by (induction b) (auto split: list.splits)

lemma hd_split: "hd (split sep b) = takeWhile (\<lambda>c. c \<noteq> sep) b"
  by (induction b) (auto simp: split_nonempty split: list.splits)

lemma validateCookiesConfig_file:
  "cookie_file (cookies (fst (validateCookiesConfig existsSync c)))
     = (case cookie_file (cookies c) of
          None \<Rightarrow> None
        | Some f \<Rightarrow> if f \<noteq> [] \<and> \<not> existsSync f then None else Some f)"
  by (simp add: validateCookiesConfig_def Let_def truthy_def split: option.splits)

lemma validateCookiesConfig_browser:
  "fromBrowser (cookies (fst (validateCookiesConfig existsSync c)))
     = (case fromBrowser (cookies c) of
          None \<Rightarrow> None
        | Some b \<Rightarrow>
            if b \<noteq> [] \<and> toLowerCase (takeWhile (\<lambda>c. c \<noteq> CHR '':'') b) \<notin> set VALID_BROWSERS
            then None else Some b)"
  by (simp add: validateCookiesConfig_def Let_def truthy_def hd_split split: option.splits)

lemma validateCookiesConfig_warn_file:
  assumes "cookie_file (cookies c) = Some f" and "f \<noteq> []" and "\<not> existsSync f"
  shows "\<exists>w \<in> set (snd (validateCookiesConfig existsSync c)). str_includes w ''Cookie file not found''"
proof -
  have "''[yt-dlp-mcp] Cookie file not found: '' @ f @ '', continuing without cookies''
          \<in> set (snd (validateCookiesConfig existsSync c))"
    using assms by (simp add: validateCookiesConfig_def Let_def truthy_def)
  moreover have "str_includes
      (''[yt-dlp-mcp] '' @ ''Cookie file not found'' @ ('': '' @ f @ '', continuing without cookies''))
      ''Cookie file not found''"
    by (rule str_includes_append)
  ultimately show ?thesis
    by (intro bexI [where x = "''[yt-dlp-mcp] Cookie file not found: '' @ f @ '', continuing without cookies''"]) simp_all
qed

lemma validateCookiesConfig_warn_browser:
  assumes "fromBrowser (cookies c) = Some b" and "b \<noteq> []"
    and "toLowerCase (takeWhile (\<lambda>c. c \<noteq> CHR '':'') b) \<notin> set VALID_BROWSERS"
  shows "\<exists>w \<in> set (snd (validateCookiesConfig existsSync c)). str_includes w ''Invalid browser name''"
proof -
  let ?n = "toLowerCase (takeWhile (\<lambda>c. c \<noteq> CHR '':'') b)"
  let ?w = "''[yt-dlp-mcp] Invalid browser name: '' @ ?n @ ''. Valid browsers: '' @ join '', '' VALID_BROWSERS"
  have "?w \<in> set (snd (validateCookiesConfig existsSync c))"
    using assms by (simp add: validateCookiesConfig_def Let_def truthy_def hd_split)
  moreover have "str_includes
      (''[yt-dlp-mcp] '' @ ''Invalid browser name'' @ ('': '' @ ?n @ ''. Valid browsers: '' @ join '', '' VALID_BROWSERS))
      ''Invalid browser name''"
    by (rule str_includes_append)
  ultimately show ?thesis
    by (intro bexI [where x = ?w]) simp_all
qed

lemma validateCookiesConfig_limits:
  "limits (fst (validateCookiesConfig existsSync c)) = limits c"
  by (simp add: validateCookiesConfig_def Let_def)

lemma validateConfig_throws:
  assumes "maxFilenameLength (fileConfig c) < 5
      \<or> downloadsDir (fileConfig c) = []
      \<or> tempDirPrefix (fileConfig c) = []
      \<or> defaultResolution (download c) \<notin> set [''480p'', ''720p'', ''1080p'', ''best'']
      \<or> defaultAudioFormat (download c) \<notin> set [''m4a'', ''mp3'']
      \<or> \<not> isLanguageTag (defaultSubtitleLanguage (download c))"
  shows "\<exists>msg. validateConfig existsSync c = Inl (Error msg)"
  using assms unfolding validateConfig_def by (simp only: split: if_split) blast

lemma validateConfig_passes:
  assumes "\<not> (maxFilenameLength (fileConfig c) < 5
      \<or> downloadsDir (fileConfig c) = []
      \<or> tempDirPrefix (fileConfig c) = []
      \<or> defaultResolution (download c) \<notin> set [''480p'', ''720p'', ''1080p'', ''best'']
      \<or> defaultAudioFormat (download c) \<notin> set [''m4a'', ''mp3'']
      \<or> \<not> isLanguageTag (defaultSubtitleLanguage (download c)))"
  shows "validateConfig existsSync c = Inr (validateCookiesConfig existsSync c)"
  using assms unfolding validateConfig_def by (simp only: de_Morgan_disj if_False)

lemma validateConfig_Inr:
  "validateConfig existsSync c = Inr r \<Longrightarrow> r = validateCookiesConfig existsSync c"
  unfolding validateConfig_def by (simp only: split: if_splits) simp_all

lemma isLanguageTag_en: "isLanguageTag ''en''"
  by (simp add: isLanguageTag_def isPrimaryTag_def isTagRest_def isLetter_def isLower_def
      lowerLetters_def)

lemma invalidbrowser_not_valid:
  "toLowerCase (takeWhile (\<lambda>c. c \<noteq> CHR '':'') ''invalidbrowser'') \<notin> set VALID_BROWSERS"
  by (simp add: toLowerCase_def upperLetters_def lowerLetters_def VALID_BROWSERS_def)

lemma merged_download_valid:
  assumes "loadEnvConfig compile env = Inr envConfig"
  shows "defaultResolution (download (mergeConfig (defaultConfig home) envConfig))
           \<in> set [''480p'', ''720p'', ''1080p'', ''best'']"
    and "defaultAudioFormat (download (mergeConfig (defaultConfig home) envConfig))
           \<in> set [''m4a'', ''mp3'']"
  by (auto simp: merge_env_download [OF assms] envDownloadConfig_def or_string_def truthy_def
      split: option.splits)

lemma merged_dirs_nonempty:
  assumes "loadEnvConfig compile env = Inr envConfig"
  shows "tempDirPrefix (fileConfig (mergeConfig (defaultConfig home) envConfig)) \<noteq> []"
    and "home \<noteq> [] \<Longrightarrow> downloadsDir (fileConfig (mergeConfig (defaultConfig home) envConfig)) \<noteq> []"
  by (auto simp: merge_env_file [OF assms] or_string_def truthy_def split: option.splits)

lemma validateCookiesConfig_frame:
  "fileConfig (fst (validateCookiesConfig existsSync c)) = fileConfig c"
  "download (fst (validateCookiesConfig existsSync c)) = download c"
  by (simp_all add: validateCookiesConfig_def Let_def)

lemma validateCookiesConfig_quiet:
  "cookie_file (cookies c) = None \<Longrightarrow> fromBrowser (cookies c) = None
     \<Longrightarrow> snd (validateCookiesConfig existsSync c) = []"
  by (simp add: validateCookiesConfig_def Let_def truthy_def)

text \<open>
  Reading the environment throws only in \<open>new RegExp\<close>: \<open>loadEnvConfig\<close> returns when
  \<open>YTDLP_SANITIZE_ILLEGAL_CHARS\<close> is unset or empty, or is a pattern that \<open>new RegExp\<close>
  accepts, and when \<open>new RegExp\<close> throws, \<open>loadConfig\<close> throws what it throws.
\<close>

lemma loadEnvConfig_returns:
  "(\<exists>envConfig. loadEnvConfig compile env = Inr envConfig)
     \<longleftrightarrow> (\<forall>p. whenSet env ''YTDLP_SANITIZE_ILLEGAL_CHARS'' = Some p \<longrightarrow> (\<exists>m. compile p = Inr m))"
  by (auto simp: loadEnvConfig_def envIllegalChars_def RegExp_new_def
      split: option.splits sum.splits)

lemma loadConfig_pattern_throws:
  assumes "whenSet env ''YTDLP_SANITIZE_ILLEGAL_CHARS'' = Some p" and "compile p = Inl e"
  shows "loadConfig compile homeDownloads existsSync env = Inl e"
  using assms by (simp add: loadConfig_def loadEnvConfig_def envIllegalChars_def RegExp_new_def)

text \<open>
  C5, as amended. Let the environment overrides be read without an error (the variable
  \<open>YTDLP_SANITIZE_ILLEGAL_CHARS\<close> is unset or a pattern that \<open>new RegExp\<close> accepts), and
  let \<open>merged\<close> be the defaults merged with them, the default downloads directory being
  non-empty (it is a path that ends in \<open>Downloads\<close>). The cookie fields of \<open>merged\<close> are
  the two cookie variables where they are set, and cookie validation never throws: when
  \<open>merged\<close> has a maximal file name length of at least 5 and a subtitle language that is
  a language tag, \<open>loadConfig\<close> returns, whatever the cookie fields are. A cookie file that
  does not exist is cleared, with a warning that contains \<open>Cookie file not found\<close>, and
  one that exists is kept; a browser whose lower-cased name before the first colon is not
  one of \<open>VALID_BROWSERS\<close> is cleared, with a warning that contains
  \<open>Invalid browser name\<close>, and any other is kept as it is. By contrast, \<open>loadConfig\<close>
  throws when \<open>merged\<close> has a maximal file name length below 5 or a subtitle language
  that is no language tag. \<open>validateConfig\<close> throws on every configuration that fails one
  of the six structural checks, but \<open>loadConfig\<close> does not throw for an empty downloads
  directory, an empty prefix of temporary directories, a resolution or an audio format
  outside the lists: the directory and the prefix of \<open>merged\<close> are never empty and its
  resolution and audio format are always in the lists, since such a value of the
  environment is dropped when the environment is read, and the default is kept.
\<close>

theorem loadConfig_validation:
  fixes homeDownloads :: string and existsSync :: "string \<Rightarrow> bool"
  assumes env: "loadEnvConfig compile env = Inr envConfig"
    and home: "homeDownloads \<noteq> []"
  defines "merged \<equiv> mergeConfig (defaultConfig homeDownloads) envConfig"
    and "result \<equiv> loadConfig compile homeDownloads existsSync env"
  defines "invalid \<equiv>
        maxFilenameLength (fileConfig merged) < 5
      \<or> \<not> isLanguageTag (defaultSubtitleLanguage (download merged))"
  shows "cookie_file (cookies merged) = whenSet env ''YTDLP_COOKIES_FILE''
    \<and> fromBrowser (cookies merged) = whenSet env ''YTDLP_COOKIES_FROM_BROWSER''
    \<and> downloadsDir (fileConfig merged) \<noteq> []
    \<and> tempDirPrefix (fileConfig merged) \<noteq> []
    \<and> defaultResolution (download merged) \<in> set [''480p'', ''720p'', ''1080p'', ''best'']
    \<and> defaultAudioFormat (download merged) \<in> set [''m4a'', ''mp3'']
    \<and> (invalid \<longrightarrow> (\<exists>msg. result = Inl (Error msg)))
    \<and> (\<not> invalid \<longrightarrow>
         (\<exists>c log. result = Inr (c, log)
            \<and> (\<forall>f. cookie_file (cookies merged) = Some f \<and> \<not> existsSync f \<longrightarrow>
                   cookie_file (cookies c) = None
                   \<and> (\<exists>w \<in> set log. str_includes w ''Cookie file not found''))
            \<and> (\<forall>f. cookie_file (cookies merged) = Some f \<and> existsSync f \<longrightarrow>
                   cookie_file (cookies c) = Some f)
            \<and> (\<forall>b. fromBrowser (cookies merged) = Some b
                     \<and> toLowerCase (takeWhile (\<lambda>c. c \<noteq> CHR '':'') b) \<notin> set VALID_BROWSERS \<longrightarrow>
                   fromBrowser (cookies c) = None
                   \<and> (\<exists>w \<in> set log. str_includes w ''Invalid browser name''))
            \<and> (\<forall>b. fromBrowser (cookies merged) = Some b
                     \<and> toLowerCase (takeWhile (\<lambda>c. c \<noteq> CHR '':'') b) \<in> set VALID_BROWSERS \<longrightarrow>
                   fromBrowser (cookies c) = Some b)))
    \<and> (\<forall>c. maxFilenameLength (fileConfig c) < 5
      \<or> downloadsDir (fileConfig c) = []
      \<or> tempDirPrefix (fileConfig c) = []
      \<or> defaultResolution (download c) \<notin> set [''480p'', ''720p'', ''1080p'', ''best'']
      \<or> defaultAudioFormat (download c) \<notin> set [''m4a'', ''mp3'']
      \<or> \<not> isLanguageTag (defaultSubtitleLanguage (download c))
          \<longrightarrow> (\<exists>msg. validateConfig existsSync c = Inl (Error msg)))"
proof -
  have cfile: "cookie_file (cookies merged) = whenSet env ''YTDLP_COOKIES_FILE''"
    and browser: "fromBrowser (cookies merged) = whenSet env ''YTDLP_COOKIES_FROM_BROWSER''"
    unfolding merged_def by (rule merge_env_cookies [OF env])+
  have dirs: "downloadsDir (fileConfig merged) \<noteq> []" "tempDirPrefix (fileConfig merged) \<noteq> []"
    unfolding merged_def using merged_dirs_nonempty [OF env] home by simp_all
  have formats: "defaultResolution (download merged) \<in> set [''480p'', ''720p'', ''1080p'', ''best'']"
    "defaultAudioFormat (download merged) \<in> set [''m4a'', ''mp3'']"
    unfolding merged_def by (rule merged_download_valid [OF env])+
  have res: "result = validateConfig existsSync merged"
    by (simp add: result_def loadConfig_def env merged_def)
  have throws: "invalid \<longrightarrow> (\<exists>msg. result = Inl (Error msg))"
    unfolding res invalid_def by (rule impI) (rule validateConfig_throws, blast)
  have lenient: "\<exists>c log. result = Inr (c, log)
            \<and> (\<forall>f. cookie_file (cookies merged) = Some f \<and> \<not> existsSync f \<longrightarrow>
                   cookie_file (cookies c) = None
                   \<and> (\<exists>w \<in> set log. str_includes w ''Cookie file not found''))
            \<and> (\<forall>f. cookie_file (cookies merged) = Some f \<and> existsSync f \<longrightarrow>
                   cookie_file (cookies c) = Some f)
            \<and> (\<forall>b. fromBrowser (cookies merged) = Some b
                     \<and> toLowerCase (takeWhile (\<lambda>c. c \<noteq> CHR '':'') b) \<notin> set VALID_BROWSERS \<longrightarrow>
                   fromBrowser (cookies c) = None
                   \<and> (\<exists>w \<in> set log. str_includes w ''Invalid browser name''))
            \<and> (\<forall>b. fromBrowser (cookies merged) = Some b
                     \<and> toLowerCase (takeWhile (\<lambda>c. c \<noteq> CHR '':'') b) \<in> set VALID_BROWSERS \<longrightarrow>
                   fromBrowser (cookies c) = Some b)"
    if ok: "\<not> invalid"
  proof -
    let ?v = "validateCookiesConfig existsSync merged"
    have "\<not> (maxFilenameLength (fileConfig merged) < 5
      \<or> downloadsDir (fileConfig merged) = []
      \<or> tempDirPrefix (fileConfig merged) = []
      \<or> defaultResolution (download merged) \<notin> set [''480p'', ''720p'', ''1080p'', ''best'']
      \<or> defaultAudioFormat (download merged) \<notin> set [''m4a'', ''mp3'']
      \<or> \<not> isLanguageTag (defaultSubtitleLanguage (download merged)))"
      using ok dirs formats unfolding invalid_def by blast
    then have r: "result = Inr (fst ?v, snd ?v)"
      unfolding res by (simp add: validateConfig_passes)
    have f1: "cookie_file (cookies (fst ?v)) = None
                \<and> (\<exists>w \<in> set (snd ?v). str_includes w ''Cookie file not found'')"
      if "cookie_file (cookies merged) = Some f" and "\<not> existsSync f" for f
    proof -
      from that(1) cfile have "f \<noteq> []"
        by (simp add: whenSet_nonempty)
      with that show ?thesis
        by (simp add: validateCookiesConfig_file validateCookiesConfig_warn_file)
    qed
    have f2: "cookie_file (cookies (fst ?v)) = Some f"
      if "cookie_file (cookies merged) = Some f" and "existsSync f" for f
      using that by (simp add: validateCookiesConfig_file)
    have b1: "fromBrowser (cookies (fst ?v)) = None
                \<and> (\<exists>w \<in> set (snd ?v). str_includes w ''Invalid browser name'')"
      if "fromBrowser (cookies merged) = Some b"
        and "toLowerCase (takeWhile (\<lambda>c. c \<noteq> CHR '':'') b) \<notin> set VALID_BROWSERS" for b
    proof -
      from that(1) browser have "b \<noteq> []"
        by (simp add: whenSet_nonempty)
      with that show ?thesis
        by (simp add: validateCookiesConfig_browser validateCookiesConfig_warn_browser)
    qed
    have b2: "fromBrowser (cookies (fst ?v)) = Some b"
      if "fromBrowser (cookies merged) = Some b"
        and "toLowerCase (takeWhile (\<lambda>c. c \<noteq> CHR '':'') b) \<in> set VALID_BROWSERS" for b
      using that by (simp add: validateCookiesConfig_browser)
    from r f1 f2 b1 b2 show ?thesis
      by blast
  qed
  have strict: "\<forall>c. maxFilenameLength (fileConfig c) < 5
      \<or> downloadsDir (fileConfig c) = []
      \<or> tempDirPrefix (fileConfig c) = []
      \<or> defaultResolution (download c) \<notin> set [''480p'', ''720p'', ''1080p'', ''best'']
      \<or> defaultAudioFormat (download c) \<notin> set [''m4a'', ''mp3'']
      \<or> \<not> isLanguageTag (defaultSubtitleLanguage (download c))
          \<longrightarrow> (\<exists>msg. validateConfig existsSync c = Inl (Error msg))"
    by (intro allI impI) (rule validateConfig_throws)
  from cfile browser dirs formats throws lenient strict show ?thesis
    by blast
qed

text \<open>
  The theorem on two environments and one configuration: an environment that names a
  cookie file that does not exist and a browser \<open>invalidbrowser\<close>, where the
  configuration is returned with both fields cleared and both warnings; an environment
  that sets the maximal file name length to 3, where \<open>loadConfig\<close> throws; and the
  default configuration with the resolution \<open>4k\<close>, which \<open>validateConfig\<close> rejects.
\<close>

theorem loadConfig_validation_witness:
  "(\<exists>c log. loadConfig rejectPattern sampleHome noFile badCookiesEnv = Inr (c, log)
      \<and> cookie_file (cookies c) = None
      \<and> fromBrowser (cookies c) = None
      \<and> (\<exists>w \<in> set log. str_includes w ''Cookie file not found'')
      \<and> (\<exists>w \<in> set log. str_includes w ''Invalid browser name''))
   \<and> (\<exists>msg. loadConfig rejectPattern sampleHome noFile shortNamesEnv = Inl (Error msg))
   \<and> (\<exists>msg. validateConfig noFile (configWithResolution ''4k'') = Inl (Error msg))"
proof (intro conjI)
  have home: "sampleHome \<noteq> []"
    by (simp add: sampleHome_def)
  have "\<exists>ec. loadEnvConfig rejectPattern badCookiesEnv = Inr ec"
    by (simp add: loadEnvConfig_def envIllegalChars_def whenSet_def badCookiesEnv_def truthy_def)
  then obtain ec where env: "loadEnvConfig rejectPattern badCookiesEnv = Inr ec" ..
  let ?m = "mergeConfig (defaultConfig sampleHome) ec"
  have unset: "whenSet badCookiesEnv ''YTDLP_MAX_FILENAME_LENGTH'' = None"
    "whenSet badCookiesEnv ''YTDLP_DEFAULT_SUBTITLE_LANG'' = None"
    by (simp_all add: whenSet_def badCookiesEnv_def truthy_def)
  have ok: "\<not> (maxFilenameLength (fileConfig ?m) < 5
      \<or> \<not> isLanguageTag (defaultSubtitleLanguage (download ?m)))"
    by (simp add: merge_env_file [OF env] merge_env_download [OF env] unset envDownloadConfig_def
        or_number_def or_string_def truthy_def isLanguageTag_en)
  have f: "cookie_file (cookies ?m) = Some ''/nonexistent/path/cookies.txt''"
    by (simp add: merge_env_cookies [OF env] whenSet_def badCookiesEnv_def truthy_def)
  have b: "fromBrowser (cookies ?m) = Some ''invalidbrowser''"
    by (simp add: merge_env_cookies [OF env] whenSet_def badCookiesEnv_def truthy_def)
  from loadConfig_validation [OF env home, where existsSync = noFile] ok
  obtain c log where r: "loadConfig rejectPattern sampleHome noFile badCookiesEnv = Inr (c, log)"
    and F: "\<forall>f. cookie_file (cookies ?m) = Some f \<and> \<not> noFile f \<longrightarrow>
                   cookie_file (cookies c) = None
                   \<and> (\<exists>w \<in> set log. str_includes w ''Cookie file not found'')"
    and B: "\<forall>b. fromBrowser (cookies ?m) = Some b
                     \<and> toLowerCase (takeWhile (\<lambda>c. c \<noteq> CHR '':'') b) \<notin> set VALID_BROWSERS \<longrightarrow>
                   fromBrowser (cookies c) = None
                   \<and> (\<exists>w \<in> set log. str_includes w ''Invalid browser name'')"
    by blast
  from F f have "cookie_file (cookies c) = None
                   \<and> (\<exists>w \<in> set log. str_includes w ''Cookie file not found'')"
    by (simp add: noFile_def)
  moreover from B b invalidbrowser_not_valid
  have "fromBrowser (cookies c) = None
                   \<and> (\<exists>w \<in> set log. str_includes w ''Invalid browser name'')"
    by blast
  ultimately show "\<exists>c log. loadConfig rejectPattern sampleHome noFile badCookiesEnv = Inr (c, log)
      \<and> cookie_file (cookies c) = None
      \<and> fromBrowser (cookies c) = None
      \<and> (\<exists>w \<in> set log. str_includes w ''Cookie file not found'')
      \<and> (\<exists>w \<in> set log. str_includes w ''Invalid browser name'')"
    using r by blast
next
  have home: "sampleHome \<noteq> []"
    by (simp add: sampleHome_def)
  have "\<exists>ec. loadEnvConfig rejectPattern shortNamesEnv = Inr ec"
    by (simp add: loadEnvConfig_def envIllegalChars_def whenSet_def shortNamesEnv_def truthy_def)
  then obtain ec where env: "loadEnvConfig rejectPattern shortNamesEnv = Inr ec" ..
  let ?m = "mergeConfig (defaultConfig sampleHome) ec"
  have three: "parseInt ''3'' = Num 3"
    by (simp add: parseInt_def Let_def isWhiteSpace_def isDigitIn_def digitValue_def digitsValue_def)
  have "maxFilenameLength (fileConfig ?m) < 5"
    by (simp add: merge_env_file [OF env] whenSet_def shortNamesEnv_def truthy_def three or_number_def)
  with loadConfig_validation [OF env home, where existsSync = noFile]
  show "\<exists>msg. loadConfig rejectPattern sampleHome noFile shortNamesEnv = Inl (Error msg)"
    by blast
next
  have home: "sampleHome \<noteq> []"
    by (simp add: sampleHome_def)
  have "\<exists>ec. loadEnvConfig rejectPattern shortNamesEnv = Inr ec"
    by (simp add: loadEnvConfig_def envIllegalChars_def whenSet_def shortNamesEnv_def truthy_def)
  then obtain ec where env: "loadEnvConfig rejectPattern shortNamesEnv = Inr ec" ..
  have "defaultResolution (download (configWithResolution ''4k''))
          \<notin> set [''480p'', ''720p'', ''1080p'', ''best'']"
    by (simp add: configWithResolution_def)
  with loadConfig_validation [OF env home, where existsSync = noFile]
  show "\<exists>msg. validateConfig noFile (configWithResolution ''4k'') = Inl (Error msg)"
    by blast
qed

text \<open>
  The claim as the specification states it has an empty downloads directory, an empty
  prefix of temporary directories, a resolution or an audio format outside the lists
  make \<open>loadConfig\<close> throw. On the environment that sets the directory and the prefix
  to the empty string, the resolution to \<open>4k\<close> and the audio format to \<open>flac\<close>,
  \<open>loadConfig\<close> returns the defaults, with no warning.
\<close>

theorem loadConfig_dropped_env_counterexample:
  "\<exists>c. loadConfig rejectPattern sampleHome noFile droppedEnv = Inr (c, [])
      \<and> downloadsDir (fileConfig c) = sampleHome
      \<and> tempDirPrefix (fileConfig c) = ''ytdlp-''
      \<and> defaultResolution (download c) = ''720p''
      \<and> defaultAudioFormat (download c) = ''m4a''"
proof -
  have "\<exists>ec. loadEnvConfig rejectPattern droppedEnv = Inr ec"
    by (simp add: loadEnvConfig_def envIllegalChars_def whenSet_def droppedEnv_def truthy_def)
  then obtain ec where env: "loadEnvConfig rejectPattern droppedEnv = Inr ec" ..
  let ?m = "mergeConfig (defaultConfig sampleHome) ec"
  let ?v = "validateCookiesConfig noFile ?m"
  have home: "sampleHome \<noteq> []"
    by (simp add: sampleHome_def)
  have vars: "whenSet droppedEnv ''YTDLP_MAX_FILENAME_LENGTH'' = None"
    "whenSet droppedEnv ''YTDLP_DOWNLOADS_DIR'' = None"
    "whenSet droppedEnv ''YTDLP_TEMP_DIR_PREFIX'' = None"
    "whenSet droppedEnv ''YTDLP_DEFAULT_RESOLUTION'' = Some ''4k''"
    "whenSet droppedEnv ''YTDLP_DEFAULT_AUDIO_FORMAT'' = Some ''flac''"
    "whenSet droppedEnv ''YTDLP_DEFAULT_SUBTITLE_LANG'' = None"
    "whenSet droppedEnv ''YTDLP_COOKIES_FILE'' = None"
    "whenSet droppedEnv ''YTDLP_COOKIES_FROM_BROWSER'' = None"
    by (simp_all add: whenSet_def droppedEnv_def truthy_def)
  have m: "maxFilenameLength (fileConfig ?m) = 50"
    "downloadsDir (fileConfig ?m) = sampleHome"
    "tempDirPrefix (fileConfig ?m) = ''ytdlp-''"
    by (simp_all add: merge_env_file [OF env] vars or_number_def or_string_def truthy_def)
  have d: "defaultResolution (download ?m) = ''720p''"
    "defaultAudioFormat (download ?m) = ''m4a''"
    "defaultSubtitleLanguage (download ?m) = ''en''"
    by (simp_all add: merge_env_download [OF env] vars envDownloadConfig_def or_string_def
        truthy_def)
  have k: "cookie_file (cookies ?m) = None" "fromBrowser (cookies ?m) = None"
    by (simp_all add: merge_env_cookies [OF env] vars)
  have "\<not> (maxFilenameLength (fileConfig ?m) < 5
      \<or> downloadsDir (fileConfig ?m) = []
      \<or> tempDirPrefix (fileConfig ?m) = []
      \<or> defaultResolution (download ?m) \<notin> set [''480p'', ''720p'', ''1080p'', ''best'']
      \<or> defaultAudioFormat (download ?m) \<notin> set [''m4a'', ''mp3'']
      \<or> \<not> isLanguageTag (defaultSubtitleLanguage (download ?m)))"
    using home by (simp add: m d isLanguageTag_en)
  then have "validateConfig noFile ?m = Inr ?v"
    by (rule validateConfig_passes)
  then have "loadConfig rejectPattern sampleHome noFile droppedEnv = Inr (fst ?v, [])"
    using validateCookiesConfig_quiet [OF k, of noFile]
    by (simp add: loadConfig_def env prod_eq_iff)
  then show ?thesis
    using m d by (simp add: validateCookiesConfig_frame)
qed

subsection \<open>The limits\<close>

text \<open>
  No environment variable reaches \<open>limits\<close>: whenever \<open>loadConfig\<close> returns, the
  character limit and the maximal transcript length are the defaults.
\<close>

lemma loadConfig_limits_default:
  assumes "loadConfig compile homeDownloads existsSync env = Inr (c, log)"
  shows "limits c = \<lparr>characterLimit = 25000, maxTranscriptLength = 50000\<rparr>"
proof -
  from assms obtain ec where env: "loadEnvConfig compile env = Inr ec"
    and v: "validateConfig existsSync (mergeConfig (defaultConfig homeDownloads) ec) = Inr (c, log)"
    by (auto simp: loadConfig_def split: sum.splits)
  from validateConfig_Inr [OF v]
  have "c = fst (validateCookiesConfig existsSync (mergeConfig (defaultConfig homeDownloads) ec))"
    by (metis fst_conv)
  then show ?thesis
    by (simp add: validateCookiesConfig_limits merge_env_limits [OF env])
qed

text \<open>
  C4. The claim has the character-limit variable change \<open>limits.characterLimit\<close> and
  the transcript-length variable change \<open>limits.maxTranscriptLength\<close>. With
  \<open>YTDLP_CHARACTER_LIMIT=10000\<close> and \<open>YTDLP_MAX_TRANSCRIPT_LENGTH=100000\<close> in the
  environment, \<open>loadConfig\<close> returns a configuration whose limits are still 25000 and
  50000.
\<close>

theorem character_limit_env_ignored:
  "\<exists>c log. loadConfig rejectPattern sampleHome noFile limitsEnv = Inr (c, log)
     \<and> limits c = \<lparr>characterLimit = 25000, maxTranscriptLength = 50000\<rparr>"
proof -
  have "\<exists>ec. loadEnvConfig rejectPattern limitsEnv = Inr ec"
    by (simp add: loadEnvConfig_def envIllegalChars_def whenSet_def limitsEnv_def truthy_def)
  then obtain ec where env: "loadEnvConfig rejectPattern limitsEnv = Inr ec" ..
  let ?m = "mergeConfig (defaultConfig sampleHome) ec"
  have unset: "whenSet limitsEnv ''YTDLP_MAX_FILENAME_LENGTH'' = None"
    "whenSet limitsEnv ''YTDLP_DOWNLOADS_DIR'' = None"
    "whenSet limitsEnv ''YTDLP_TEMP_DIR_PREFIX'' = None"
    "whenSet limitsEnv ''YTDLP_DEFAULT_RESOLUTION'' = None"
    "whenSet limitsEnv ''YTDLP_DEFAULT_AUDIO_FORMAT'' = None"
    "whenSet limitsEnv ''YTDLP_DEFAULT_SUBTITLE_LANG'' = None"
    by (simp_all add: whenSet_def limitsEnv_def truthy_def)
  have ok: "\<not> (maxFilenameLength (fileConfig ?m) < 5
      \<or> downloadsDir (fileConfig ?m) = []
      \<or> tempDirPrefix (fileConfig ?m) = []
      \<or> defaultResolution (download ?m) \<notin> set [''480p'', ''720p'', ''1080p'', ''best'']
      \<or> defaultAudioFormat (download ?m) \<notin> set [''m4a'', ''mp3'']
      \<or> \<not> isLanguageTag (defaultSubtitleLanguage (download ?m)))"
    by (simp add: merge_env_file [OF env] merge_env_download [OF env] unset envDownloadConfig_def
        or_number_def or_string_def truthy_def sampleHome_def isLanguageTag_en)
  have "loadConfig rejectPattern sampleHome noFile limitsEnv
          = Inr (fst (validateCookiesConfig noFile ?m), snd (validateCookiesConfig noFile ?m))"
    using validateConfig_passes [OF ok, of noFile] by (simp add: loadConfig_def env)
  then show ?thesis
    using loadConfig_limits_default by blast
qed

section \<open>Properties of \<open>sanitizeFilename\<close>\<close>

text \<open>
  With the default pattern, a global class of single characters, and a replacement
  without a dollar sign, \<open>replace\<close> maps every illegal character to the replacement.
\<close>

lemma GetSubstitution_plain:
  "CHR ''$'' \<notin> set repl \<Longrightarrow> GetSubstitution m s p repl = repl"
  by (induction m s p repl rule: GetSubstitution.induct) auto

lemma replaceFrom_class:
  assumes re: "exec_at re = (\<lambda>s i. if i < length s \<and> P (s ! i) then Some 1 else None)"
    and g: "global re"
    and plain: "CHR ''$'' \<notin> set repl"
  shows "i \<le> length s \<Longrightarrow>
           replaceFrom re s repl i = concat (map (\<lambda>c. if P c then repl else [c]) (drop i s))"
proof (induction "length s - i" arbitrary: i)
  case 0
  then have "i = length s" by simp
  then show ?case
    by (simp add: replaceFrom.simps [of re s repl "length s"] re)
next
  case (Suc n)
  then have lt: "i < length s" by simp
  then have d: "drop i s = s ! i # drop (Suc i) s"
    by (simp add: Cons_nth_drop_Suc)
  from Suc have IH: "replaceFrom re s repl (Suc i)
      = concat (map (\<lambda>c. if P c then repl else [c]) (drop (Suc i) s))"
    by simp
  show ?case
    using lt IH
    by (simp add: replaceFrom.simps [of re s repl i] re g d GetSubstitution_plain [OF plain])
qed

lemma js_replace_default:
  "js_replace s defaultIllegalChars ''_'' = map (\<lambda>c. if isIllegalChar c then CHR ''_'' else c) s"
proof -
  have "replaceFrom defaultIllegalChars s ''_'' 0
          = concat (map (\<lambda>c. if isIllegalChar c then ''_'' else [c]) (drop 0 s))"
    by (rule replaceFrom_class [where P = isIllegalChar]) (simp_all add: defaultIllegalChars_def)
  also have "\<dots> = map (\<lambda>c. if isIllegalChar c then CHR ''_'' else c) s"
    by (induction s) auto
  finally show ?thesis
    by (simp add: js_replace_def)
qed

lemma safeName_default:
  "safeName filename (fileConfig (defaultConfig home))
     = (let safe = map (\<lambda>c. if isIllegalChar c then CHR ''_'' else c) filename
        in if toUpperCase (path_parse_name safe)
                \<in> set (reservedNames (sanitize (fileConfig (defaultConfig home))))
           then ''_'' @ safe else safe)"
  by (simp add: safeName_def js_replace_default [symmetric] Let_def defaultConfig_def)

text \<open>
  When the name is too long and the extension and the suffix together fit into
  \<open>maxFilenameLength\<close>, the third step makes the length exactly \<open>maxFilenameLength\<close>
  and keeps the extension.
\<close>

lemma sanitizeFilename_exact:
  assumes long: "maxFilenameLength cfg < int (length (safeName filename cfg))"
    and room: "int (length (path_extname (safeName filename cfg)))
                 + int (length (truncateSuffix (sanitize cfg))) \<le> maxFilenameLength cfg"
  shows "int (length (sanitizeFilename filename cfg)) = maxFilenameLength cfg
    \<and> sanitizeFilename filename cfg
        = take (nat (maxFilenameLength cfg - int (length (path_extname (safeName filename cfg)))
                      - int (length (truncateSuffix (sanitize cfg)))))
            (safeName filename cfg)
          @ truncateSuffix (sanitize cfg) @ path_extname (safeName filename cfg)"
  using long room by (simp add: sanitizeFilename_def Let_def slice0_def)

text \<open>Evaluation on a title of 74 characters whose last dot is followed by 53 characters.\<close>

lemma longTitle_safe:
  "map (\<lambda>c. if isIllegalChar c then CHR ''_'' else c) longTitle = longTitle"
  by (simp add: longTitle_def isIllegalChar_def dq_def backslash_def)

lemma longTitle_ext:
  "path_extname longTitle = ''. Official playlist with all the best new music videos''"
  by (simp add: longTitle_def path_extname_def basePart_def Let_def)

lemma longTitle_name: "toUpperCase (path_parse_name longTitle) = ''TOP 10 SONGS OF 2023''"
  by (simp add: path_parse_name_def longTitle_ext Let_def)
     (simp add: longTitle_def basePart_def toUpperCase_def upperLetters_def lowerLetters_def)

text \<open>
  C7. The claim gives a truncated name the length \<open>maxFilenameLength\<close> exactly. Under
  the default configuration (maximum 50, suffix \<open>...\<close>) the title above has an
  extension of 54 characters, the cut point \<open>50 - 54 - 3\<close> is negative, \<open>slice(0, -7)\<close>
  keeps the first 67 characters, and the result has 124 characters: longer than the
  maximum and than the name itself.
\<close>

theorem sanitizeFilename_overlong:
  "length longTitle = 74
   \<and> sanitizeFilename longTitle (fileConfig (defaultConfig sampleHome))
       = ''Top 10 songs of 2023. Official playlist with all the best new music''
           @ ''...'' @ ''. Official playlist with all the best new music videos''
   \<and> length (sanitizeFilename longTitle (fileConfig (defaultConfig sampleHome))) = 124"
proof -
  have len: "length longTitle = 74"
    by (simp add: longTitle_def)
  have res: "toUpperCase (path_parse_name longTitle)
               \<notin> set (reservedNames (sanitize (fileConfig (defaultConfig sampleHome))))"
    by (simp add: longTitle_name defaultConfig_def)
  have cut: "slice0 longTitle (- 7)
               = ''Top 10 songs of 2023. Official playlist with all the best new music''"
    by (simp add: slice0_def longTitle_def)
  have safe: "safeName longTitle (fileConfig (defaultConfig sampleHome)) = longTitle"
    using res by (simp add: safeName_default longTitle_safe Let_def)
  have r: "sanitizeFilename longTitle (fileConfig (defaultConfig sampleHome))
       = ''Top 10 songs of 2023. Official playlist with all the best new music''
           @ ''...'' @ ''. Official playlist with all the best new music videos''"
  proof -
    have mx: "maxFilenameLength (fileConfig (defaultConfig sampleHome)) = 50"
      and suffix: "truncateSuffix (sanitize (fileConfig (defaultConfig sampleHome))) = ''...''"
      by (simp_all add: defaultConfig_def)
    show ?thesis
      by (simp add: sanitizeFilename_def safe Let_def len longTitle_ext cut mx suffix)
  qed
  from len r show ?thesis
    by simp
qed

end
